theory Spec2Isabelle
  imports Main "HOL-Library.Sublist"
begin

section \<open>Strings and characters as the JavaScript code sees them\<close>

text \<open>
  Strings are lists of 8-bit characters, that is, JavaScript strings whose code units
  lie in U+0000..U+00FF. \<open>code\<close> is the code unit of a character.
\<close>

definition code :: "char \<Rightarrow> nat" where
  "code c = of_char c"

text \<open>
  \<open>String.prototype.toLowerCase\<close> on this range: A..Z (codes 65..90) and the Latin-1
  capitals (codes 192..222, without the multiplication sign 215) move up by 32, every
  other character is left as it is.
\<close>

definition toLowerChar :: "char \<Rightarrow> char" where
  "toLowerChar c =
     (if (65 \<le> code c \<and> code c \<le> 90) \<or> (192 \<le> code c \<and> code c \<le> 222 \<and> code c \<noteq> 215)
      then char_of (code c + 32) else c)"

definition toLowerCase :: "string \<Rightarrow> string" where
  "toLowerCase s = map toLowerChar s"

text \<open>The character classes of the four regular expressions in \<open>generateSlug\<close>.\<close>

definition is_az :: "char \<Rightarrow> bool" where
  "is_az c = (97 \<le> code c \<and> code c \<le> 122)"

definition is_digit :: "char \<Rightarrow> bool" where
  "is_digit c = (48 \<le> code c \<and> code c \<le> 57)"

definition is_hyphen :: "char \<Rightarrow> bool" where
  "is_hyphen c = (c = CHR ''-'')"

text \<open>The class \<open>[^a-z0-9 -]\<close>: everything but a lowercase letter, a digit, a space and a hyphen.\<close>

definition not_slug_char :: "char \<Rightarrow> bool" where
  "not_slug_char c = (\<not> (is_az c \<or> is_digit c \<or> c = CHR '' '' \<or> c = CHR ''-''))"

text \<open>
  The class \<open>\s\<close> on this range: tab, line feed, vertical tab, form feed, carriage
  return, space and the no-break space U+00A0.
\<close>

definition is_whitespace :: "char \<Rightarrow> bool" where
  "is_whitespace c = (code c \<in> {9, 10, 11, 12, 13, 32, 160})"

section \<open>The regular expressions of the source and global replace\<close>

text \<open>
  The fragment of regular expressions that the source uses: one character of a class
  \<open>[..]\<close>, a greedy repetition \<open>[..]+\<close>, the anchors \<open>^r\<close> and \<open>r$\<close> (without the
  multiline flag) and the ordered alternative \<open>r|s\<close>.
\<close>

datatype regex =
    Class "char \<Rightarrow> bool"
  | Plus "char \<Rightarrow> bool"
  | Bol regex
  | Eol regex
  | Alt regex regex

text \<open>
  \<open>match_lens r at_start s\<close> lists the lengths of the matches of \<open>r\<close> at the head of
  the remaining input \<open>s\<close>, in the order in which a backtracking matcher tries them:
  the greedy repetition tries the longest run first, the alternative its left branch
  first. \<open>at_start\<close> says whether the position is the start of the whole input.
  The matcher takes the first entry.
\<close>

fun match_lens :: "regex \<Rightarrow> bool \<Rightarrow> string \<Rightarrow> nat list" where
  "match_lens (Class c) at_start s = (case s of [] \<Rightarrow> [] | x # _ \<Rightarrow> if c x then [1] else [])"
| "match_lens (Plus c) at_start s = rev [1 ..< Suc (length (takeWhile c s))]"
| "match_lens (Bol r) at_start s = (if at_start then match_lens r at_start s else [])"
| "match_lens (Eol r) at_start s = filter (\<lambda>n. n = length s) (match_lens r at_start s)"
| "match_lens (Alt r1 r2) at_start s = match_lens r1 at_start s @ match_lens r2 at_start s"

text \<open>
  \<open>s.replace(/r/g, rep)\<close>: scan from the left; where the expression matches, emit
  \<open>rep\<close> and go on behind the match, otherwise copy one character. Every expression of
  the fragment matches at least one character, so the scan goes on behind a match.
\<close>

function replace_from :: "regex \<Rightarrow> string \<Rightarrow> bool \<Rightarrow> string \<Rightarrow> string" where
  "replace_from r rep at_start [] = []"
| "replace_from r rep at_start (x # xs) =
     (case match_lens r at_start (x # xs) of
        [] \<Rightarrow> x # replace_from r rep False xs
      | n # _ \<Rightarrow> rep @ replace_from r rep False (drop (n - 1) xs))"
  by pat_completeness auto
termination
  by (relation "measure (\<lambda>(r, rep, at_start, s). length s)") auto

definition replace :: "regex \<Rightarrow> string \<Rightarrow> string \<Rightarrow> string" where
  "replace r rep s = replace_from r rep True s"

section \<open>generateSlug\<close>

text \<open>
  \<^verbatim>\<open>title.toLowerCase().replace(/[^a-z0-9 -]/g, '').replace(/\s+/g, '-')
       .replace(/-+/g, '-').replace(/^-+|-+$/g, '')\<close>,
  the same function in both variants of the server.
\<close>

definition generateSlug :: "string \<Rightarrow> string" where
  "generateSlug title =
     replace (Alt (Bol (Plus is_hyphen)) (Eol (Plus is_hyphen))) ''''
       (replace (Plus is_hyphen) ''-''
         (replace (Plus is_whitespace) ''-''
           (replace (Class not_slug_char) ''''
             (toLowerCase title))))"


subsection \<open>The slug as the specification words it\<close>

text \<open>
  The specification describes the slug as a pipeline: lowercase; strip every character
  that is not a lowercase letter, a digit, a space or a hyphen; replace each maximal run
  of whitespace by a hyphen; collapse each run of hyphens to one hyphen; remove leading
  and trailing hyphens. These definitions follow those words, not the regular
  expressions.
\<close>

definition strip_disallowed :: "string \<Rightarrow> string" where
  "strip_disallowed s = filter (\<lambda>c. is_az c \<or> is_digit c \<or> c = CHR '' '' \<or> c = CHR ''-'') s"

text \<open>Each maximal run of characters satisfying \<open>P\<close> becomes one hyphen; \<open>in_run\<close> says
  whether the previous character belonged to such a run.\<close>

fun runs_to_hyphen :: "(char \<Rightarrow> bool) \<Rightarrow> bool \<Rightarrow> string \<Rightarrow> string" where
  "runs_to_hyphen P in_run [] = []"
| "runs_to_hyphen P in_run (x # xs) =
     (if P x then (if in_run then [] else ''-'') @ runs_to_hyphen P True xs
      else x # runs_to_hyphen P False xs)"

definition trim_end :: "string \<Rightarrow> string" where
  "trim_end s = rev (dropWhile is_hyphen (rev s))"

definition trim_hyphens :: "string \<Rightarrow> string" where
  "trim_hyphens s = trim_end (dropWhile is_hyphen s)"

definition slug_by_spec :: "string \<Rightarrow> string" where
  "slug_by_spec t =
     trim_hyphens (runs_to_hyphen is_hyphen False
       (runs_to_hyphen is_whitespace False (strip_disallowed (toLowerCase t))))"

text \<open>The shape of a finished slug: letters, digits and hyphens only, no two hyphens in
  a row, no hyphen at either end.\<close>

definition slug_alphabet :: "string \<Rightarrow> bool" where
  "slug_alphabet s = list_all (\<lambda>c. is_az c \<or> is_digit c \<or> is_hyphen c) s"

fun no_double_hyphen :: "string \<Rightarrow> bool" where
  "no_double_hyphen (x # y # zs) = (\<not> (is_hyphen x \<and> is_hyphen y) \<and> no_double_hyphen (y # zs))"
| "no_double_hyphen _ = True"

definition no_edge_hyphen :: "string \<Rightarrow> bool" where
  "no_edge_hyphen s = (s = [] \<or> (\<not> is_hyphen (hd s) \<and> \<not> is_hyphen (last s)))"

section \<open>JavaScript values and built-ins used by the handlers\<close>

text \<open>
  A field of a request body is absent (\<open>undefined\<close>) or a string. The handlers test
  fields with \<open>!x\<close>, which holds for an absent field and for the empty string.
\<close>

definition falsy :: "string option \<Rightarrow> bool" where
  "falsy v = (case v of None \<Rightarrow> True | Some s \<Rightarrow> s = [])"

text \<open>The string of a field that has passed the \<open>!x\<close> test.\<close>

definition text_of :: "string option \<Rightarrow> string" where
  "text_of v = (case v of None \<Rightarrow> [] | Some s \<Rightarrow> s)"

text \<open>\<open>x && {k: x}\<close> spread into an object: the key is there only for a truthy value.\<close>

definition truthy_only :: "string option \<Rightarrow> string option" where
  "truthy_only v = (if falsy v then None else v)"

definition startsWith :: "string \<Rightarrow> string \<Rightarrow> bool" where
  "startsWith s p = (take (length p) s = p)"

text \<open>\<open>s.split(' ')\<close>: the pieces between single spaces.\<close>

fun split_space :: "string \<Rightarrow> string list" where
  "split_space [] = [] # []"
| "split_space (c # cs) =
     (if c = CHR '' '' then [] # split_space cs
      else (case split_space cs of [] \<Rightarrow> [c] # [] | w # ws \<Rightarrow> (c # w) # ws))"

text \<open>\<open>xs[i]\<close>, \<open>undefined\<close> out of range.\<close>

definition at_index :: "'a list \<Rightarrow> nat \<Rightarrow> 'a option" where
  "at_index xs i = (if i < length xs then Some (xs ! i) else None)"

text \<open>
  \<open>parseInt(s)\<close> without a radix: skip leading whitespace, read a sign, read \<open>0x\<close> or
  \<open>0X\<close> as the mark of radix 16, then take the longest prefix of digits; no digit gives
  \<open>NaN\<close> (here \<open>None\<close>). Numbers are integers; JavaScript's doubles are exact up to
  \<open>2^53\<close>, which covers every id that \<open>Date.now()\<close> produces.
\<close>

definition is_hexdigit :: "char \<Rightarrow> bool" where
  "is_hexdigit c = (is_digit c \<or> (97 \<le> code c \<and> code c \<le> 102) \<or> (65 \<le> code c \<and> code c \<le> 70))"

definition digit_val :: "char \<Rightarrow> nat" where
  "digit_val c = (if is_digit c then code c - 48 else if 97 \<le> code c then code c - 87 else code c - 55)"

definition digits_value :: "nat \<Rightarrow> string \<Rightarrow> nat" where
  "digits_value radix ds = foldl (\<lambda>acc c. acc * radix + digit_val c) 0 ds"

definition is_sign :: "char \<Rightarrow> bool" where
  "is_sign c = (c = CHR ''+'' \<or> c = CHR ''-'')"

definition strip_sign :: "string \<Rightarrow> string" where
  "strip_sign s = (case s of [] \<Rightarrow> [] | c # cs \<Rightarrow> if is_sign c then cs else s)"

definition parseInt :: "string \<Rightarrow> int option" where
  "parseInt s =
     (let t = dropWhile is_whitespace s;
          negative = (case t of [] \<Rightarrow> False | c # _ \<Rightarrow> c = CHR ''-'');
          u = strip_sign t;
          hex = (startsWith u ''0x'' \<or> startsWith u ''0X'');
          ds = (if hex then takeWhile is_hexdigit (drop 2 u) else takeWhile is_digit u);
          v = int (digits_value (if hex then 16 else 10) ds)
      in if ds = [] then None else Some (if negative then - v else v))"

text \<open>
  \<open>isNaN(s)\<close> on a string converts it with \<open>Number(s)\<close>: after trimming whitespace the
  empty string is 0; otherwise the text must be a whole numeric literal: \<open>0x\<close>, \<open>0o\<close> or
  \<open>0b\<close> with digits of that radix, or an optionally signed decimal literal (\<open>Infinity\<close>,
  digits with an optional fraction and exponent).
\<close>

definition all_digits :: "(char \<Rightarrow> bool) \<Rightarrow> string \<Rightarrow> bool" where
  "all_digits P s = (s \<noteq> [] \<and> list_all P s)"

definition exponent_ok :: "string \<Rightarrow> bool" where
  "exponent_ok r =
     (case r of [] \<Rightarrow> True
      | e # r' \<Rightarrow> (e = CHR ''e'' \<or> e = CHR ''E'') \<and> all_digits is_digit (strip_sign r'))"

definition unsigned_decimal :: "string \<Rightarrow> bool" where
  "unsigned_decimal s =
     (s = ''Infinity'' \<or>
      (let ip = takeWhile is_digit s; r = dropWhile is_digit s
       in case r of
            [] \<Rightarrow> ip \<noteq> []
          | c # r' \<Rightarrow>
              if c = CHR ''.''
              then (ip \<noteq> [] \<or> takeWhile is_digit r' \<noteq> []) \<and> exponent_ok (dropWhile is_digit r')
              else ip \<noteq> [] \<and> exponent_ok r))"

definition non_decimal :: "string \<Rightarrow> bool" where
  "non_decimal s =
     ((startsWith s ''0x'' \<or> startsWith s ''0X'') \<and> all_digits is_hexdigit (drop 2 s) \<or>
      (startsWith s ''0o'' \<or> startsWith s ''0O'') \<and>
         all_digits (\<lambda>c. 48 \<le> code c \<and> code c \<le> 55) (drop 2 s) \<or>
      (startsWith s ''0b'' \<or> startsWith s ''0B'') \<and>
         all_digits (\<lambda>c. c = CHR ''0'' \<or> c = CHR ''1'') (drop 2 s))"

definition js_isNaN :: "string \<Rightarrow> bool" where
  "js_isNaN s =
     (let t = rev (dropWhile is_whitespace (rev (dropWhile is_whitespace s)))
      in \<not> (t = [] \<or> non_decimal t \<or> unsigned_decimal (strip_sign t)))"

text \<open>The decimal text of an integer, as string concatenation with a number produces it.\<close>

function digits_of :: "nat \<Rightarrow> string" where
  "digits_of n = (if n < 10 then [char_of (48 + n)] else digits_of (n div 10) @ [char_of (48 + n mod 10)])"
  by pat_completeness auto
termination
  by (relation "measure id") auto

declare digits_of.simps [simp del]

definition numberToString :: "int \<Rightarrow> string" where
  "numberToString i = (if i < 0 then CHR ''-'' # digits_of (nat (- i)) else digits_of (nat i))"

text \<open>\<open>xs.findIndex(f)\<close>, with \<open>None\<close> for \<open>-1\<close>.\<close>

fun findIndex :: "('a \<Rightarrow> bool) \<Rightarrow> 'a list \<Rightarrow> nat option" where
  "findIndex f [] = None"
| "findIndex f (x # xs) = (if f x then Some 0 else map_option Suc (findIndex f xs))"


section \<open>Responses, tokens and the auth gate\<close>

text \<open>
  A token, symbolically: the payload's \<open>username\<close> claim, its issue time \<open>iat\<close>, its
  not-before time \<open>nbf\<close> and its expiry time \<open>exp\<close> in seconds (a token need carry
  neither \<open>nbf\<close> nor \<open>exp\<close>), and the secret under which its signature verifies (for
  a token that is not signed, or signed in another way, a text that is no one's
  secret). \<open>jwt.sign({username}, secret, {expiresIn: '1h'})\<close> stamps \<open>iat\<close> with the
  current second and \<open>exp\<close> 3600 seconds later, and sets no \<open>nbf\<close>.
\<close>

record jwt =
  claim_username :: string
  iat :: int
  nbf :: "int option"
  exp :: "int option"
  signed_with :: string


text \<open>
  \<open>jwt.verify(token, secret)\<close>, called without options, returns or throws; \<open>True\<close> is
  returning. The text of a token is read by \<open>decode\<close> (\<open>None\<close> for a text that is not a
  well-formed token), a parameter of the model. Verification throws for an empty text,
  for a malformed one, for a signature that does not verify under the secret, for a
  not-before time that the clock, in whole seconds, has not reached
  (\<open>payload.nbf > clockTimestamp\<close>), and for an expiry time that the clock has reached
  (\<open>clockTimestamp >= payload.exp\<close>), in this order.
\<close>

definition jwt_verify :: "(string \<Rightarrow> jwt option) \<Rightarrow> string \<Rightarrow> int \<Rightarrow> string \<Rightarrow> bool" where
  "jwt_verify decode secret now_ms token =
     (token \<noteq> [] \<and>
      (case decode token of
         None \<Rightarrow> False
       | Some t \<Rightarrow>
           signed_with t = secret \<and>
           (case nbf t of None \<Rightarrow> True | Some n \<Rightarrow> n \<le> now_ms div 1000) \<and>
           (case exp t of None \<Rightarrow> True | Some e \<Rightarrow> now_ms div 1000 < e)))"

text \<open>
  The JSON bodies the handlers send, over the type \<open>'p\<close> of a post as the storage returns
  it: \<open>{error}\<close>, \<open>{token}\<close>, \<open>{success, id, slug}\<close>, a post, \<open>data[0]\<close> (which may be
  \<open>undefined\<close>), \<open>{success}\<close> and \<open>{success, post}\<close>.
\<close>

datatype 'p body =
    Err string
  | TokenB jwt
  | Created int string
  | PostB 'p
  | RowB "'p option"
  | Success
  | SuccessPost "'p option"

record 'p response =
  status :: nat
  body :: "'p body"

datatype 'p gate = Next | Respond "'p response"

text \<open>\<open>authMiddleware\<close>, the same function in both variants.\<close>

definition authMiddleware ::
  "(string \<Rightarrow> jwt option) \<Rightarrow> string \<Rightarrow> int \<Rightarrow> string option \<Rightarrow> 'p gate" where
  "authMiddleware decode secret now_ms authHeader =
     (case authHeader of
        None \<Rightarrow> Respond \<lparr>status = 401, body = Err ''No token provided''\<rparr>
      | Some h \<Rightarrow>
          if \<not> startsWith h ''Bearer ''
          then Respond \<lparr>status = 401, body = Err ''No token provided''\<rparr>
          else (case at_index (split_space h) 1 of
                  None \<Rightarrow> Respond \<lparr>status = 403, body = Err ''Invalid token''\<rparr>
                | Some token \<Rightarrow>
                    if jwt_verify decode secret now_ms token then Next
                    else Respond \<lparr>status = 403, body = Err ''Invalid token''\<rparr>))"

text \<open>The token the gate reads from a header that starts with \<open>Bearer \<close>: the text
  between the first space and the next one.\<close>

definition bearer_token :: "string \<Rightarrow> string" where
  "bearer_token h = takeWhile (\<lambda>c. c \<noteq> CHR '' '') (drop 7 h)"

text \<open>A route \<open>app.post(path, authMiddleware, handler)\<close>: the handler runs on the state
  only when the gate calls \<open>next()\<close>.\<close>

definition protected ::
  "'p gate \<Rightarrow> ('s \<Rightarrow> 'p response \<times> 's) \<Rightarrow> 's \<Rightarrow> 'p response \<times> 's" where
  "protected g handler st = (case g of Respond r \<Rightarrow> (r, st) | Next \<Rightarrow> handler st)"

section \<open>Login\<close>




section \<open>File mode: the posts file and its handlers\<close>

record post =
  post_id :: int
  title :: string
  content :: string
  label :: string
  slug :: string
  date :: string
  createdAt :: string
  image_url :: "string option"
  updated :: "string option"

text \<open>
  What \<open>fs.readFile\<close> and \<open>JSON.parse\<close> make of the posts file: a read error, text that
  does not parse, or the array of posts (the only thing the server writes).
\<close>

datatype posts_file = ReadError | NotJson | Json "post list"

text \<open>The three readings of the clock in the create handler: \<open>Date.now()\<close>, the short
  date and the ISO time.\<close>

record clock =
  now :: int
  today :: string
  iso_now :: string

record post_fields =
  f_title :: "string option"
  f_content :: "string option"
  f_label :: "string option"
  f_image :: "string option"

text \<open>A create request in file mode: the body, the name under which the upload middleware
  stored the file (if one was sent), and the request's protocol and host.\<close>

record create_request =
  req_body :: post_fields
  file_name :: "string option"
  protocol :: string
  host :: string

definition newPost :: "clock \<Rightarrow> create_request \<Rightarrow> post" where
  "newPost clk req =
     \<lparr>post_id = now clk,
      title = text_of (f_title (req_body req)),
      content = text_of (f_content (req_body req)),
      label = text_of (f_label (req_body req)),
      slug = generateSlug (text_of (f_title (req_body req))),
      date = today clk,
      createdAt = iso_now clk,
      image_url = (case file_name req of
                     None \<Rightarrow> None
                   | Some f \<Rightarrow> Some (protocol req @ ''://'' @ host req @ ''/uploads/'' @ f)),
      updated = None\<rparr>"


definition all_present :: "post_fields \<Rightarrow> bool" where
  "all_present b = (\<not> falsy (f_title b) \<and> \<not> falsy (f_content b) \<and> \<not> falsy (f_label b))"

text \<open>
  \<open>POST /api/posts\<close> in file mode. \<open>write_fails\<close> says whether \<open>fs.writeFile\<close> reports an
  error; a failed write is taken to leave the file as it was.
\<close>

definition create_file ::
  "bool \<Rightarrow> clock \<Rightarrow> create_request \<Rightarrow> posts_file \<Rightarrow> post response \<times> posts_file" where
  "create_file write_fails clk req fs =
     (if falsy (f_title (req_body req)) \<or> falsy (f_content (req_body req)) \<or> falsy (f_label (req_body req))
      then (\<lparr>status = 400, body = Err ''Title, content, and label required''\<rparr>, fs)
      else
        let posts = (case fs of Json ps \<Rightarrow> ps | _ \<Rightarrow> []);
            posts' = posts @ [newPost clk req]
        in if write_fails then (\<lparr>status = 500, body = Err ''Cannot save post''\<rparr>, fs)
           else (\<lparr>status = 200, body = Created (post_id (newPost clk req)) (slug (newPost clk req))\<rparr>,
                 Json posts'))"

text \<open>\<open>PUT /api/posts/:id\<close> in file mode.\<close>

definition merge_post :: "post \<Rightarrow> post_fields \<Rightarrow> string \<Rightarrow> post" where
  "merge_post p b stamp =
     p\<lparr>title := text_of (f_title b), content := text_of (f_content b),
       label := text_of (f_label b), slug := generateSlug (text_of (f_title b)),
       updated := Some stamp\<rparr>"

definition update_file ::
  "bool \<Rightarrow> clock \<Rightarrow> string \<Rightarrow> post_fields \<Rightarrow> posts_file \<Rightarrow> post response \<times> posts_file" where
  "update_file write_fails clk id_param b fs =
     (let postId = parseInt id_param in
      if falsy (f_title b) \<or> falsy (f_content b) \<or> falsy (f_label b)
      then (\<lparr>status = 400, body = Err ''Title, content, and label required''\<rparr>, fs)
      else (case fs of
              ReadError \<Rightarrow> (\<lparr>status = 500, body = Err ''Cannot read posts''\<rparr>, fs)
            | NotJson \<Rightarrow> (\<lparr>status = 500, body = Err ''Invalid posts data''\<rparr>, fs)
            | Json posts \<Rightarrow>
                (case findIndex (\<lambda>p. Some (post_id p) = postId) posts of
                   None \<Rightarrow> (\<lparr>status = 404, body = Err ''Post not found''\<rparr>, fs)
                 | Some index \<Rightarrow>
                     if write_fails then (\<lparr>status = 500, body = Err ''Cannot save post''\<rparr>, fs)
                     else (\<lparr>status = 200, body = Success\<rparr>,
                           Json (posts[index := merge_post (posts ! index) b (iso_now clk)])))))"

text \<open>\<open>DELETE /api/posts/:id\<close> in file mode; \<open>posts.splice(index, 1)\<close> takes the element at
  \<open>index\<close> out of the array.\<close>

definition delete_file :: "bool \<Rightarrow> string \<Rightarrow> posts_file \<Rightarrow> post response \<times> posts_file" where
  "delete_file write_fails id_param fs =
     (let postId = parseInt id_param in
      case fs of
        ReadError \<Rightarrow> (\<lparr>status = 500, body = Err ''Cannot read posts''\<rparr>, fs)
      | NotJson \<Rightarrow> (\<lparr>status = 500, body = Err ''Invalid posts data''\<rparr>, fs)
      | Json posts \<Rightarrow>
          (case findIndex (\<lambda>p. Some (post_id p) = postId) posts of
             None \<Rightarrow> (\<lparr>status = 404, body = Err ''Post not found''\<rparr>, fs)
           | Some index \<Rightarrow>
               if write_fails then (\<lparr>status = 500, body = Err ''Cannot save posts''\<rparr>, fs)
               else (\<lparr>status = 200, body = SuccessPost (Some (posts ! index))\<rparr>,
                     Json (take index posts @ drop (Suc index) posts))))"

text \<open>The numeric-id match of the lookup: the identifier is numeric and reads as the
  post's id.\<close>

definition matches_id :: "string \<Rightarrow> post \<Rightarrow> bool" where
  "matches_id identifier p = (\<not> js_isNaN identifier \<and> parseInt identifier = Some (post_id p))"

text \<open>\<open>GET /api/post/:identifier\<close> in file mode: the three searches in their order.\<close>

definition lookup_file :: "post list \<Rightarrow> string \<Rightarrow> post option" where
  "lookup_file posts identifier =
     (let by_id = (if \<not> js_isNaN identifier
                   then find (\<lambda>p. Some (post_id p) = parseInt identifier) posts else None);
          by_slug = (case by_id of None \<Rightarrow> find (\<lambda>p. slug p = identifier) posts | Some p \<Rightarrow> Some p)
      in case by_slug of
           None \<Rightarrow> find (\<lambda>p. generateSlug (title p) = identifier) posts
         | Some p \<Rightarrow> Some p)"

definition get_post_file :: "string \<Rightarrow> posts_file \<Rightarrow> post response" where
  "get_post_file identifier fs =
     (case fs of
        ReadError \<Rightarrow> \<lparr>status = 500, body = Err ''Cannot read posts''\<rparr>
      | NotJson \<Rightarrow> \<lparr>status = 500, body = Err ''Invalid posts data''\<rparr>
      | Json posts \<Rightarrow>
          (case lookup_file posts identifier of
             None \<Rightarrow> \<lparr>status = 404, body = Err ''Post not found''\<rparr>
           | Some p \<Rightarrow> \<lparr>status = 200, body = PostB p\<rparr>))"


section \<open>Backend mode: the hosted table and its handlers\<close>

text \<open>
  In backend mode the posts are rows of a table of a hosted service, reached through a
  client library; the service's URL and key are taken to be set in the environment, so
  that \<open>supabaseClient()\<close> returns a client. The handlers never look into a row, so
  the type \<open>'row\<close> of rows is left open. A reply of the service is the pair
  \<open>{data, error}\<close>; the service itself is a parameter: the reply it gives to each
  request. A handler returns its response together with the list of requests it has
  sent to the service, in order.
\<close>

record 'd reply =
  data :: 'd
  error :: "string option"

text \<open>The object inserted by the create handler and the object sent by the update
  handler (a key is sent only when its value is \<open>Some\<close>).\<close>

record new_row =
  n_title :: string
  n_content :: string
  n_label :: string
  n_slug :: string
  n_image :: "string option"

record update_data =
  u_title :: "string option"
  u_content :: "string option"
  u_label :: "string option"
  u_slug :: "string option"
  u_image :: "string option"
  u_updated_at :: string

record 'row service =
  select_single :: "string \<Rightarrow> string \<Rightarrow> 'row option reply"
  insert_select :: "new_row \<Rightarrow> 'row list reply"
  update_select :: "string \<Rightarrow> update_data \<Rightarrow> 'row list reply"
  delete_select :: "string \<Rightarrow> 'row list reply"
  storage_upload :: "string \<Rightarrow> string option"
  public_url :: "string \<Rightarrow> string"

datatype call =
    SelectSingle string string
  | Insert new_row
  | Update string update_data
  | Delete string
  | Upload string

text \<open>\<open>GET /api/post/:identifier\<close>: \<open>.eq('id', identifier).single()\<close> for a numeric
  identifier, \<open>.eq('slug', identifier).single()\<close> otherwise.\<close>

definition get_post_backend :: "'row service \<Rightarrow> string \<Rightarrow> 'row response \<times> call list" where
  "get_post_backend svc identifier =
     (let column = (if \<not> js_isNaN identifier then ''id'' else ''slug'');
          r = select_single svc column identifier
      in (case (error r, data r) of
            (None, Some row) \<Rightarrow> \<lparr>status = 200, body = PostB row\<rparr>
          | _ \<Rightarrow> \<lparr>status = 404, body = Err ''Post not found''\<rparr>,
          [SelectSingle column identifier]))"

text \<open>\<open>POST /api/posts\<close>: \<open>.insert([{title, content, label, slug, image: image || null}])
  .select()\<close>, with the slug \<open>generateSlug(title) + '-' + Date.now()\<close>.\<close>

definition create_backend ::
  "'row service \<Rightarrow> int \<Rightarrow> post_fields \<Rightarrow> 'row response \<times> call list" where
  "create_backend svc now_ms b =
     (if falsy (f_title b) \<or> falsy (f_content b) \<or> falsy (f_label b)
      then (\<lparr>status = 400, body = Err ''Missing fields''\<rparr>, [])
      else
        let row = \<lparr>n_title = text_of (f_title b), n_content = text_of (f_content b),
                   n_label = text_of (f_label b),
                   n_slug = generateSlug (text_of (f_title b)) @ ''-'' @ numberToString now_ms,
                   n_image = truthy_only (f_image b)\<rparr>;
            r = insert_select svc row
        in (case error r of
              Some msg \<Rightarrow> \<lparr>status = 500, body = Err msg\<rparr>
            | None \<Rightarrow> \<lparr>status = 200, body = RowB (at_index (data r) 0)\<rparr>,
            [Insert row]))"

text \<open>
  \<open>PUT /api/posts/:id\<close>: an uploaded file is stored first and its public URL becomes
  the image; then the object built from the truthy values is sent with
  \<open>.update(updateData).eq('id', postId).select()\<close>. The handler writes the slug chain out
  again; it is the chain of \<open>generateSlug\<close>. \<open>file\<close> is the original name of the
  uploaded file, if one was sent.
\<close>

definition updateData :: "clock \<Rightarrow> post_fields \<Rightarrow> string option \<Rightarrow> update_data" where
  "updateData clk b img =
     (let new_slug = (if falsy (f_title b) then None else Some (generateSlug (text_of (f_title b))))
      in \<lparr>u_title = truthy_only (f_title b), u_content = truthy_only (f_content b),
          u_label = truthy_only (f_label b), u_slug = truthy_only new_slug,
          u_image = truthy_only img, u_updated_at = iso_now clk\<rparr>)"

definition send_update ::
  "'row service \<Rightarrow> string \<Rightarrow> update_data \<Rightarrow> call list \<Rightarrow> 'row response \<times> call list" where
  "send_update svc postId upd sent =
     (let r = update_select svc postId upd
      in (case error r of
            Some msg \<Rightarrow> \<lparr>status = 500, body = Err msg\<rparr>
          | None \<Rightarrow> \<lparr>status = 200, body = SuccessPost (at_index (data r) 0)\<rparr>,
          sent @ [Update postId upd]))"

text \<open>The name under which an uploaded file is stored: \<open>`${Date.now()}-${originalname}`\<close>.\<close>

definition upload_name :: "clock \<Rightarrow> string \<Rightarrow> string" where
  "upload_name clk originalname = numberToString (now clk) @ ''-'' @ originalname"

definition update_backend ::
  "'row service \<Rightarrow> clock \<Rightarrow> string \<Rightarrow> post_fields \<Rightarrow> string option \<Rightarrow> 'row response \<times> call list" where
  "update_backend svc clk postId b file =
     (case file of
        None \<Rightarrow> send_update svc postId (updateData clk b (f_image b)) []
      | Some originalname \<Rightarrow>
          let filename = upload_name clk originalname
          in (case storage_upload svc filename of
                Some msg \<Rightarrow> (\<lparr>status = 500, body = Err msg\<rparr>, [Upload filename])
              | None \<Rightarrow>
                  send_update svc postId (updateData clk b (Some (public_url svc filename)))
                    [Upload filename]))"

text \<open>\<open>DELETE /api/posts/:id\<close>: \<open>.delete().eq('id', postId).select()\<close>.\<close>

definition delete_backend :: "'row service \<Rightarrow> string \<Rightarrow> 'row response \<times> call list" where
  "delete_backend svc postId =
     (let r = delete_select svc postId
      in (case error r of
            Some msg \<Rightarrow> \<lparr>status = 500, body = Err msg\<rparr>
          | None \<Rightarrow> \<lparr>status = 200, body = SuccessPost (at_index (data r) 0)\<rparr>,
          [Delete postId]))"


section \<open>Sample data\<close>

text \<open>A clock, a request and a table service on which the results below are run.\<close>

definition demo_clock :: clock where
  "demo_clock = \<lparr>now = 1700, today = ''Nov 3'', iso_now = ''2026-11-03T10:00:00.000Z''\<rparr>"

definition demo_fields :: post_fields where
  "demo_fields = \<lparr>f_title = Some ''Hello,  World!'', f_content = Some ''text'',
                   f_label = Some ''news'', f_image = None\<rparr>"

definition demo_request :: create_request where
  "demo_request = \<lparr>req_body = demo_fields, file_name = Some ''1699-a.png'',
                    protocol = ''https'', host = ''example.org''\<rparr>"

definition demo_service :: "nat service" where
  "demo_service =
     \<lparr>select_single = (\<lambda>c v. \<lparr>data = None, error = Some ''no rows''\<rparr>),
      insert_select = (\<lambda>r. \<lparr>data = [7], error = None\<rparr>),
      update_select = (\<lambda>i u. \<lparr>data = [7], error = None\<rparr>),
      delete_select = (\<lambda>i. \<lparr>data = [], error = None\<rparr>),
      storage_upload = (\<lambda>f. None),
      public_url = (\<lambda>f. ''https://cdn.example.org/'' @ f)\<rparr>"

text \<open>A token reader, a configuration, a password check and a handler for the auth and
  login results. The reader knows four tokens: \<open>good\<close> (signed with the key, expiring at
  second 4600), \<open>forged\<close> (signed with another key), \<open>early\<close> (as \<open>good\<close>, not valid
  before second 3000) and \<open>lasting\<close> (signed with the key, no expiry).\<close>

definition demo_decode :: "string \<Rightarrow> jwt option" where
  "demo_decode s =
     (if s = ''good''
      then Some \<lparr>claim_username = ''admin'', iat = 1000, nbf = None, exp = Some 4600,
                 signed_with = ''key''\<rparr>
      else if s = ''forged''
      then Some \<lparr>claim_username = ''admin'', iat = 1000, nbf = None, exp = Some 4600,
                 signed_with = ''other''\<rparr>
      else if s = ''early''
      then Some \<lparr>claim_username = ''admin'', iat = 1000, nbf = Some 3000, exp = Some 4600,
                 signed_with = ''key''\<rparr>
      else if s = ''lasting''
      then Some \<lparr>claim_username = ''admin'', iat = 1000, nbf = None, exp = None,
                 signed_with = ''key''\<rparr>
      else None)"



definition demo_handler :: "nat \<Rightarrow> post response \<times> nat" where
  "demo_handler n = (\<lparr>status = 200, body = Success\<rparr>, Suc n)"


text \<open>Three stored posts, two of them with the same title and slug, and a table service
  whose insert fails.\<close>

definition demo_post1 :: post where
  "demo_post1 = \<lparr>post_id = 1, title = ''Hello'', content = ''first'', label = ''news'',
                  slug = ''hello'', date = ''Nov 1'', createdAt = ''2026-11-01T09:00:00.000Z'',
                  image_url = None, updated = None\<rparr>"

definition demo_post2 :: post where
  "demo_post2 = \<lparr>post_id = 2, title = ''Hello'', content = ''second'', label = ''news'',
                  slug = ''hello'', date = ''Nov 2'', createdAt = ''2026-11-02T09:00:00.000Z'',
                  image_url = Some ''https://example.org/uploads/2-b.png'', updated = None\<rparr>"

definition demo_post3 :: post where
  "demo_post3 = \<lparr>post_id = 3, title = ''Third post'', content = ''third'', label = ''misc'',
                  slug = ''third-post'', date = ''Nov 2'', createdAt = ''2026-11-02T10:00:00.000Z'',
                  image_url = None, updated = None\<rparr>"

definition demo_posts :: "post list" where
  "demo_posts = [demo_post1, demo_post2, demo_post3]"


text \<open>Two incomplete create requests: without a title, and with an empty label.\<close>

definition demo_request_untitled :: create_request where
  "demo_request_untitled = demo_request\<lparr>req_body := demo_fields\<lparr>f_title := None\<rparr>\<rparr>"

definition demo_fields_unlabelled :: post_fields where
  "demo_fields_unlabelled = demo_fields\<lparr>f_label := Some []\<rparr>"

text \<open>Update requests: the title and an image only; a complete one with an image; the
  content only.\<close>

definition partial_fields :: post_fields where
  "partial_fields = \<lparr>f_title = Some ''New title'', f_content = None, f_label = None,
                      f_image = Some ''https://example.org/new.png''\<rparr>"

definition demo_fields_with_image :: post_fields where
  "demo_fields_with_image = demo_fields\<lparr>f_image := Some ''https://example.org/new.png''\<rparr>"

definition untitled_fields :: post_fields where
  "untitled_fields = \<lparr>f_title = None, f_content = Some ''rewritten'', f_label = None, f_image = None\<rparr>"

text \<open>A table service with one row, found by the slug \<open>2024\<close> and by nothing else.\<close>

definition slug_only_service :: "nat service" where
  "slug_only_service = demo_service\<lparr>select_single :=
     (\<lambda>column v. if column = ''slug'' \<and> v = ''2024'' then \<lparr>data = Some 7, error = None\<rparr>
                  else \<lparr>data = None, error = Some ''no rows''\<rparr>)\<rparr>"

section \<open>Properties of the regular expressions and of generateSlug\<close>

lemma trim_hyphens_eq: "trim_hyphens s = rev (dropWhile is_hyphen (rev (dropWhile is_hyphen s)))"
  by (simp add: trim_hyphens_def trim_end_def)

lemma slug_alphabet_iff: "slug_alphabet s = (\<forall>c \<in> set s. is_az c \<or> is_digit c \<or> is_hyphen c)"
  by (simp add: slug_alphabet_def list_all_iff)

text \<open>A match of the fragment is never empty and never longer than the input left.\<close>

lemma match_lens_bounds: "n \<in> set (match_lens r b s) \<Longrightarrow> 0 < n \<and> n \<le> length s"
proof (induction r arbitrary: n)
  case (Class c)
  then show ?case by (cases s) (auto split: if_splits)
next
  case (Plus c)
  then have "n \<le> length (takeWhile c s)" by auto
  then show ?case
    using Plus length_takeWhile_le [of c s] by auto
next
  case (Bol r)
  then show ?case by (auto split: if_splits)
next
  case (Eol r)
  then show ?case by auto
next
  case (Alt r1 r2)
  then show ?case by auto
qed

lemma match_lens_Plus_Nil: "\<not> c x \<Longrightarrow> match_lens (Plus c) b (x # xs) = []"
  by simp

lemma match_lens_Plus_Cons:
  "c x \<Longrightarrow> match_lens (Plus c) b (x # xs) =
     Suc (length (takeWhile c xs)) # rev [1 ..< Suc (length (takeWhile c xs))]"
  by simp

lemma drop_takeWhile_length: "drop (length (takeWhile P xs)) xs = dropWhile P xs"
  by (induction xs) auto

lemma replace_from_Class: "replace_from (Class c) [] b s = filter (\<lambda>x. \<not> c x) s"
  by (induction s arbitrary: b) auto

lemma runs_to_hyphen_skip: "runs_to_hyphen P True xs = runs_to_hyphen P False (dropWhile P xs)"
  by (induction xs) auto

lemma replace_from_Plus: "replace_from (Plus c) ''-'' b s = runs_to_hyphen c False s"
proof (induction s arbitrary: b rule: length_induct)
  case (1 s)
  show ?case
  proof (cases s)
    case Nil
    then show ?thesis by simp
  next
    case (Cons x xs)
    show ?thesis
    proof (cases "c x")
      case True
      have len: "length (dropWhile c xs) < length s"
        using Cons by (simp add: le_imp_less_Suc length_dropWhile_le)
      have "replace_from (Plus c) ''-'' b s = ''-'' @ replace_from (Plus c) ''-'' False (dropWhile c xs)"
        using Cons True by (simp add: drop_takeWhile_length del: match_lens.simps add: match_lens_Plus_Cons)
      also have "\<dots> = ''-'' @ runs_to_hyphen c False (dropWhile c xs)"
        using 1 len by simp
      also have "\<dots> = runs_to_hyphen c False s"
        using Cons True by (simp add: runs_to_hyphen_skip)
      finally show ?thesis .
    next
      case False
      then show ?thesis using Cons 1 by simp
    qed
  qed
qed

lemma trim_end_Cons:
  "trim_end (x # xs) = (if \<forall>y \<in> set (x # xs). is_hyphen y then [] else x # trim_end xs)"
  by (auto simp: trim_end_def dropWhile_append)

lemma takeWhile_all_length: "(length (takeWhile P xs) = length xs) = (\<forall>x \<in> set xs. P x)"
  by (induction xs) (auto simp: takeWhile_eq_all_conv)


lemma replace_from_trim_inner: "replace_from (Alt (Bol (Plus is_hyphen)) (Eol (Plus is_hyphen))) [] False s = trim_end s"
proof (induction s)
  case Nil
  then show ?case by (simp add: trim_end_def)
next
  case (Cons x xs)
  show ?case
  proof (cases "is_hyphen x")
    case True
    show ?thesis
    proof (cases "\<forall>y \<in> set xs. is_hyphen y")
      case all: True
      then have "length (takeWhile is_hyphen xs) = length xs"
        by (simp add: takeWhile_all_length)
      then show ?thesis using True all
        by (simp add: trim_end_Cons)
    next
      case some: False
      then have "length (takeWhile is_hyphen xs) \<noteq> length xs"
        by (simp add: takeWhile_all_length)
      moreover have "length (takeWhile is_hyphen xs) \<le> length xs"
        by (rule length_takeWhile_le)
      ultimately have lt: "length (takeWhile is_hyphen xs) < length xs"
        by simp
      then show ?thesis using True some Cons
        by (simp add: trim_end_Cons filter_empty_conv)
    qed
  next
    case False
    then show ?thesis using Cons by (simp add: trim_end_Cons)
  qed
qed


lemma replace_trim: "replace (Alt (Bol (Plus is_hyphen)) (Eol (Plus is_hyphen))) [] s = trim_hyphens s"
proof (cases s)
  case Nil
  then show ?thesis by (simp add: replace_def trim_hyphens_eq)
next
  case (Cons x xs)
  show ?thesis
  proof (cases "is_hyphen x")
    case True
    then show ?thesis using Cons
      by (simp add: replace_def trim_hyphens_eq replace_from_trim_inner drop_takeWhile_length trim_end_def)
  next
    case False
    then have "trim_hyphens s = trim_end s"
      using Cons by (simp add: trim_hyphens_eq trim_end_def)
    then show ?thesis using False Cons
      by (simp add: replace_def replace_from_trim_inner trim_end_Cons)
  qed
qed

lemma replace_Class: "replace (Class c) [] s = filter (\<lambda>x. \<not> c x) s"
  by (simp add: replace_def replace_from_Class)

lemma replace_Plus: "replace (Plus c) ''-'' s = runs_to_hyphen c False s"
  by (simp add: replace_def replace_from_Plus)

lemma generateSlug_pipeline: "generateSlug t = slug_by_spec t"
  by (simp add: generateSlug_def slug_by_spec_def replace_trim replace_Plus
      replace_Class strip_disallowed_def not_slug_char_def)

lemma code_hyphen: "code CHR ''-'' = 45" and code_space: "code CHR '' '' = 32"
  by (simp_all add: code_def)

lemma toLowerChar_fixed: "is_az c \<or> is_digit c \<or> is_hyphen c \<Longrightarrow> toLowerChar c = c"
  by (auto simp: toLowerChar_def is_az_def is_digit_def is_hyphen_def code_hyphen)

lemma toLowerCase_fixed: "slug_alphabet s \<Longrightarrow> toLowerCase s = s"
  by (simp add: slug_alphabet_iff toLowerCase_def toLowerChar_fixed map_idI)

lemma strip_fixed: "slug_alphabet s \<Longrightarrow> strip_disallowed s = s"
  by (auto simp: slug_alphabet_iff strip_disallowed_def is_hyphen_def filter_id_conv)

lemma not_whitespace: "is_az c \<or> is_digit c \<or> is_hyphen c \<Longrightarrow> \<not> is_whitespace c"
  by (auto simp: is_az_def is_digit_def is_hyphen_def is_whitespace_def code_hyphen)

lemma runs_none: "\<forall>c \<in> set s. \<not> P c \<Longrightarrow> runs_to_hyphen P b s = s"
  by (induction s arbitrary: b) auto

lemma runs_whitespace_fixed: "slug_alphabet s \<Longrightarrow> runs_to_hyphen is_whitespace b s = s"
  by (rule runs_none) (auto simp: slug_alphabet_iff not_whitespace)

lemma no_double_hyphen_Cons:
  "no_double_hyphen (x # ys) =
     ((ys = [] \<or> \<not> (is_hyphen x \<and> is_hyphen (hd ys))) \<and> no_double_hyphen ys)"
  by (cases ys) auto

lemma runs_hyphen_fixed:
  "no_double_hyphen s \<Longrightarrow> (b \<longrightarrow> s = [] \<or> \<not> is_hyphen (hd s)) \<Longrightarrow> runs_to_hyphen is_hyphen b s = s"
proof (induction s arbitrary: b)
  case Nil
  then show ?case by simp
next
  case (Cons x xs)
  then show ?case
    by (auto simp: no_double_hyphen_Cons is_hyphen_def)
qed

lemma trim_fixed: "no_edge_hyphen s \<Longrightarrow> trim_hyphens s = s"
proof (cases s)
  case Nil
  then show ?thesis by (simp add: trim_hyphens_eq)
next
  case (Cons x xs)
  assume "no_edge_hyphen s"
  then have h: "\<not> is_hyphen x" and l: "\<not> is_hyphen (last s)"
    using Cons by (auto simp: no_edge_hyphen_def)
  have "rev s \<noteq> []" using Cons by simp
  then have "dropWhile is_hyphen (rev s) = rev s"
    using l by (cases "rev s") (auto simp: last_rev)
  then show ?thesis using h Cons by (simp add: trim_hyphens_eq)
qed


lemma runs_set: "set (runs_to_hyphen P b s) \<subseteq> insert CHR ''-'' {c \<in> set s. \<not> P c}"
  by (induction s arbitrary: b) auto

lemma trim_set: "set (trim_hyphens s) \<subseteq> set s"
  by (auto simp: trim_hyphens_eq dest!: set_dropWhileD)

lemma slug_alphabet_out: "slug_alphabet (slug_by_spec t)"
proof -
  let ?a = "strip_disallowed (toLowerCase t)"
  let ?b = "runs_to_hyphen is_whitespace False ?a"
  let ?c = "runs_to_hyphen is_hyphen False ?b"
  have b: "slug_alphabet ?b"
    using runs_set [of is_whitespace False ?a]
    by (auto simp: slug_alphabet_iff strip_disallowed_def is_hyphen_def is_whitespace_def code_space)
  have "slug_alphabet ?c"
    using runs_set [of is_hyphen False ?b] b
    by (auto simp: slug_alphabet_iff is_hyphen_def)
  then show ?thesis
    using trim_set [of ?c] by (auto simp: slug_alphabet_iff slug_by_spec_def)
qed

lemma runs_hyphen_shape:
  "no_double_hyphen (runs_to_hyphen is_hyphen b s) \<and>
   (b \<longrightarrow> runs_to_hyphen is_hyphen b s = [] \<or> \<not> is_hyphen (hd (runs_to_hyphen is_hyphen b s)))"
  by (induction s arbitrary: b) (auto simp: no_double_hyphen_Cons is_hyphen_def)

lemma no_double_hyphen_append: "no_double_hyphen (xs @ ys) \<Longrightarrow> no_double_hyphen xs \<and> no_double_hyphen ys"
  by (induction xs rule: no_double_hyphen.induct) (auto simp: no_double_hyphen_Cons)

lemma trim_decompose: "\<exists>pre post. s = pre @ trim_hyphens s @ post"
proof -
  let ?d = "dropWhile is_hyphen s"
  have 1: "s = takeWhile is_hyphen s @ ?d" by simp
  have 2: "?d = trim_hyphens s @ rev (takeWhile is_hyphen (rev ?d))"
    by (metis rev_append rev_rev_ident takeWhile_dropWhile_id trim_hyphens_eq)
  show ?thesis using 1 2 by metis
qed

lemma no_double_hyphen_trim: "no_double_hyphen s \<Longrightarrow> no_double_hyphen (trim_hyphens s)"
  using trim_decompose [of s] no_double_hyphen_append by metis

lemma no_edge_hyphen_trim: "no_edge_hyphen (trim_hyphens s)"
proof (cases "trim_hyphens s = []")
  case True
  then show ?thesis by (simp add: no_edge_hyphen_def)
next
  case False
  let ?d = "dropWhile is_hyphen s"
  let ?e = "dropWhile is_hyphen (rev ?d)"
  have ne: "?e \<noteq> []" using False by (simp add: trim_hyphens_eq del: dropWhile_eq_Nil_conv)
  have dne: "?d \<noteq> []"
  proof
    assume "?d = []"
    then have "?e = []" by (simp del: dropWhile_eq_Nil_conv)
    then show False using ne by (simp del: dropWhile_eq_Nil_conv)
  qed
  have last: "\<not> is_hyphen (last (trim_hyphens s))"
    using ne hd_dropWhile [of is_hyphen "rev ?d"] by (simp add: trim_hyphens_eq last_rev)
  have "?d = trim_hyphens s @ rev (takeWhile is_hyphen (rev ?d))"
    by (metis rev_append rev_rev_ident takeWhile_dropWhile_id trim_hyphens_eq)
  then have "hd ?d = hd (trim_hyphens s)"
    using False by (metis hd_append2)
  then have "\<not> is_hyphen (hd (trim_hyphens s))"
    using dne hd_dropWhile [of is_hyphen s] by simp
  then show ?thesis using last by (simp add: no_edge_hyphen_def)
qed

lemma slug_by_spec_fixed:
  "slug_alphabet s \<Longrightarrow> no_double_hyphen s \<Longrightarrow> no_edge_hyphen s \<Longrightarrow> slug_by_spec s = s"
  by (simp add: slug_by_spec_def toLowerCase_fixed strip_fixed runs_whitespace_fixed
      runs_hyphen_fixed trim_fixed)

lemma slug_by_spec_idem: "slug_by_spec (slug_by_spec t) = slug_by_spec t"
proof (rule slug_by_spec_fixed)
  show "slug_alphabet (slug_by_spec t)" by (rule slug_alphabet_out)
  show "no_double_hyphen (slug_by_spec t)"
    unfolding slug_by_spec_def using runs_hyphen_shape no_double_hyphen_trim by blast
  show "no_edge_hyphen (slug_by_spec t)"
    unfolding slug_by_spec_def by (rule no_edge_hyphen_trim)
qed


section \<open>Creating posts\<close>

lemma create_file_ok:
  "status (fst (create_file w_fails clk req fs)) = 200 \<Longrightarrow>
   create_file w_fails clk req fs =
     (\<lparr>status = 200, body = Created (now clk) (generateSlug (text_of (f_title (req_body req))))\<rparr>,
      Json ((case fs of Json ps \<Rightarrow> ps | _ \<Rightarrow> []) @ [newPost clk req]))"
  by (auto simp: create_file_def Let_def newPost_def split: if_splits)

section \<open>The slug\<close>

text \<open>
  C5. For every title (over 8-bit characters) the slug that \<open>generateSlug\<close> computes with
  its four regular expressions is the slug of the specification's pipeline: lowercase,
  strip every character that is not a lowercase letter, a digit, a space or a hyphen,
  turn each maximal run of whitespace into a hyphen, collapse each run of hyphens, remove
  leading and trailing hyphens. At creation the file-mode handler stores this slug as it
  is, and the backend-mode handler inserts it followed by \<open>-\<close> and the creation time
  \<open>Date.now()\<close>.
\<close>

theorem slug_as_specified:
  "generateSlug t = slug_by_spec t \<and>
   (f_title (req_body req) = Some t \<and> status (fst (create_file w_fails clk req fs)) = 200 \<longrightarrow>
      (\<exists>old. snd (create_file w_fails clk req fs) = Json (old @ [newPost clk req])) \<and>
      slug (newPost clk req) = generateSlug t) \<and>
   (f_title b = Some t \<and> status (fst (create_backend svc now_ms b)) \<noteq> 400 \<longrightarrow>
      (\<exists>row. snd (create_backend svc now_ms b) = [Insert row] \<and>
         n_slug row = generateSlug t @ ''-'' @ numberToString now_ms))"
proof (intro conjI impI)
  show "generateSlug t = slug_by_spec t" by (rule generateSlug_pipeline)
next
  assume a: "f_title (req_body req) = Some t \<and> status (fst (create_file w_fails clk req fs)) = 200"
  then show "\<exists>old. snd (create_file w_fails clk req fs) = Json (old @ [newPost clk req])"
    using create_file_ok [of w_fails clk req fs] by simp
  show "slug (newPost clk req) = generateSlug t"
    using a by (simp add: newPost_def text_of_def)
next
  assume "f_title b = Some t \<and> status (fst (create_backend svc now_ms b)) \<noteq> 400"
  then show "\<exists>row. snd (create_backend svc now_ms b) = [Insert row] \<and>
         n_slug row = generateSlug t @ ''-'' @ numberToString now_ms"
    by (auto simp: create_backend_def Let_def text_of_def split: if_splits)
qed

theorem slug_as_specified_witness:
  "generateSlug ''Hello,  World!'' = ''hello-world'' \<and>
   slug_by_spec ''Hello,  World!'' = ''hello-world'' \<and>
   status (fst (create_file False demo_clock demo_request (Json []))) = 200 \<and>
   slug (newPost demo_clock demo_request) = ''hello-world'' \<and>
   status (fst (create_backend demo_service 1700 demo_fields)) = 200 \<and>
   (\<exists>row. snd (create_backend demo_service 1700 demo_fields) = [Insert row] \<and>
      n_slug row = ''hello-world-1700'')"
proof -
  have t: "f_title (req_body demo_request) = Some ''Hello,  World!''"
    and tb: "f_title demo_fields = Some ''Hello,  World!''"
    by (simp_all add: demo_request_def demo_fields_def)
  have s: "generateSlug ''Hello,  World!'' = ''hello-world''" by code_simp
  have n: "numberToString 1700 = ''1700''" by code_simp
  have f: "status (fst (create_file False demo_clock demo_request (Json []))) = 200"
    by (simp add: create_file_def demo_request_def demo_fields_def falsy_def)
  have g: "status (fst (create_backend demo_service 1700 demo_fields)) = 200"
    by (simp add: create_backend_def demo_service_def demo_fields_def falsy_def Let_def)
  show ?thesis
    using slug_as_specified [of "''Hello,  World!''" demo_request False demo_clock "Json []"
        demo_fields demo_service 1700] t tb s n f g
    by simp
qed

text \<open>
  C6. \<open>generateSlug\<close> is idempotent, and it is a function of the title alone: it reads
  no clock and no state, so equal titles give equal slugs.
\<close>

theorem generateSlug_idempotent:
  "generateSlug (generateSlug t) = generateSlug t \<and>
   (t = t' \<longrightarrow> generateSlug t = generateSlug t')"
proof
  have "generateSlug (generateSlug t) = slug_by_spec (slug_by_spec t)"
    by (simp only: generateSlug_pipeline)
  also have "\<dots> = slug_by_spec t"
    by (rule slug_by_spec_idem)
  also have "\<dots> = generateSlug t"
    by (simp only: generateSlug_pipeline)
  finally show "generateSlug (generateSlug t) = generateSlug t" .
  show "t = t' \<longrightarrow> generateSlug t = generateSlug t'"
    by (rule impI) (rule arg_cong)
qed

theorem generateSlug_idempotent_witness:
  "generateSlug ''  A -- b  '' = ''a-b'' \<and> generateSlug ''a-b'' = ''a-b'' \<and>
   generateSlug (generateSlug ''  A -- b  '') = generateSlug ''  A -- b  ''"
proof -
  have "generateSlug ''  A -- b  '' = ''a-b''" "generateSlug ''a-b'' = ''a-b''"
    by code_simp+
  then show ?thesis
    using generateSlug_idempotent [of "''  A -- b  ''" "''  A -- b  ''"] by simp
qed

section \<open>The auth gate and login\<close>

lemma split_space_hd: "\<exists>ws. split_space r = takeWhile (\<lambda>c. c \<noteq> CHR '' '') r # ws"
  by (induction r) (auto split: list.splits)

lemma split_space_append_space:
  "CHR '' '' \<notin> set w \<Longrightarrow> split_space (w @ CHR '' '' # r) = w # split_space r"
  by (induction w) auto

lemma bearer_split:
  assumes "startsWith h ''Bearer ''"
  shows "at_index (split_space h) (Suc 0) = Some (bearer_token h)"
proof -
  have t: "take (length ''Bearer '') h = ''Bearer ''"
    using assms by (simp only: startsWith_def)
  have l: "length ''Bearer '' = 7" by simp
  have "take 7 h = ''Bearer ''" using t by (simp only: l)
  then have "h = ''Bearer '' @ drop 7 h"
    by (metis append_take_drop_id)
  then obtain rest where rest: "rest = drop 7 h" and h: "h = ''Bearer'' @ CHR '' '' # rest"
    by simp
  obtain ws where ws: "split_space rest = bearer_token h # ws"
    using split_space_hd [of rest] rest by (auto simp: bearer_token_def)
  have "split_space (''Bearer'' @ CHR '' '' # rest) = ''Bearer'' # split_space rest"
    by (rule split_space_append_space) simp
  then have "split_space h = ''Bearer'' # bearer_token h # ws"
    using ws by (simp only: h [symmetric])
  then show ?thesis by (simp add: at_index_def)
qed

lemma authMiddleware_cases:
  "authMiddleware decode secret now_ms h =
     (case h of
        None \<Rightarrow> Respond \<lparr>status = 401, body = Err ''No token provided''\<rparr>
      | Some s \<Rightarrow>
          if \<not> startsWith s ''Bearer '' then Respond \<lparr>status = 401, body = Err ''No token provided''\<rparr>
          else if jwt_verify decode secret now_ms (bearer_token s) then Next
          else Respond \<lparr>status = 403, body = Err ''Invalid token''\<rparr>)"
  by (auto simp: authMiddleware_def bearer_split split: option.splits)

lemma jwt_verify_iff:
  "jwt_verify decode secret now_ms tok =
     (tok \<noteq> [] \<and>
      (\<exists>t. decode tok = Some t \<and> signed_with t = secret \<and>
           (\<forall>n. nbf t = Some n \<longrightarrow> n \<le> now_ms div 1000) \<and>
           (\<forall>e. exp t = Some e \<longrightarrow> now_ms div 1000 < e)))"
  by (cases "decode tok") (auto simp: jwt_verify_def split: option.splits)

lemma jwt_reject_iff:
  "(\<not> jwt_verify decode secret now_ms tok) =
     (tok = [] \<or> decode tok = None \<or>
      (\<exists>t. decode tok = Some t \<and>
           (signed_with t \<noteq> secret \<or> (\<exists>n. nbf t = Some n \<and> now_ms div 1000 < n) \<or>
            (\<exists>e. exp t = Some e \<and> e \<le> now_ms div 1000))))"
  by (cases "decode tok") (auto simp: jwt_verify_def split: option.splits)

text \<open>
  A token that the secret has signed and that has not expired is still turned away
  while its not-before time lies ahead: at second 2000 the token \<open>early\<close>, signed with
  the key, expiring at second 4600 and not valid before second 3000, gets 403.
\<close>

theorem auth_not_before_counterexample:
  "demo_decode ''early'' =
     Some \<lparr>claim_username = ''admin'', iat = 1000, nbf = Some 3000, exp = Some 4600,
           signed_with = ''key''\<rparr> \<and>
   startsWith ''Bearer early'' ''Bearer '' \<and>
   bearer_token ''Bearer early'' = ''early'' \<and>
   (2000000 :: int) div 1000 < 4600 \<and>
   authMiddleware demo_decode ''key'' 2000000 (Some ''Bearer early'') =
     (Respond \<lparr>status = 403, body = Err ''Invalid token''\<rparr> :: post gate)"
proof (intro conjI)
  show d: "demo_decode ''early'' =
     Some \<lparr>claim_username = ''admin'', iat = 1000, nbf = Some 3000, exp = Some 4600,
           signed_with = ''key''\<rparr>"
    by (simp add: demo_decode_def)
  show s: "startsWith ''Bearer early'' ''Bearer ''"
    by (simp add: startsWith_def)
  show t: "bearer_token ''Bearer early'' = ''early''"
    by (simp add: bearer_token_def)
  show "(2000000 :: int) div 1000 < 4600" by simp
  have "\<not> jwt_verify demo_decode ''key'' 2000000 ''early''"
    by (simp add: jwt_verify_def d)
  then show "authMiddleware demo_decode ''key'' 2000000 (Some ''Bearer early'') =
     (Respond \<lparr>status = 403, body = Err ''Invalid token''\<rparr> :: post gate)"
    using s t by (simp add: authMiddleware_cases)
qed

text \<open>
  C7, amended. On a protected route the gate answers 401 exactly when the Authorization
  header is absent or does not start with \<open>Bearer \<close>; it answers 403 exactly when the
  header starts with \<open>Bearer \<close> and \<open>jwt.verify\<close> turns the token it carries away: the
  token is empty or malformed, its signature does not verify under the secret, its
  not-before time has not been reached, or its expiry time has been reached; otherwise
  (a well-formed token, signed with the secret, past its not-before time if it has one
  and before its expiry time if it has one) it calls the handler. When the gate answers,
  the handler is not run: the response is the gate's and the state is untouched,
  whatever the handler is.
\<close>

theorem auth_gate:
  fixes gate :: "'p gate" and handler :: "'s \<Rightarrow> 'p response \<times> 's"
  assumes "gate = authMiddleware decode secret now_ms h"
  shows "((\<exists>r. gate = Respond r \<and> status r = 401) =
            (case h of None \<Rightarrow> True | Some s \<Rightarrow> \<not> startsWith s ''Bearer '')) \<and>
         ((\<exists>r. gate = Respond r \<and> status r = 403) =
            (\<exists>s. h = Some s \<and> startsWith s ''Bearer '' \<and>
                 (bearer_token s = [] \<or> decode (bearer_token s) = None \<or>
                  (\<exists>t. decode (bearer_token s) = Some t \<and>
                       (signed_with t \<noteq> secret \<or>
                        (\<exists>n. nbf t = Some n \<and> now_ms div 1000 < n) \<or>
                        (\<exists>e. exp t = Some e \<and> e \<le> now_ms div 1000)))))) \<and>
         ((gate = Next) =
            (\<exists>s t. h = Some s \<and> startsWith s ''Bearer '' \<and> bearer_token s \<noteq> [] \<and>
                   decode (bearer_token s) = Some t \<and> signed_with t = secret \<and>
                   (\<forall>n. nbf t = Some n \<longrightarrow> n \<le> now_ms div 1000) \<and>
                   (\<forall>e. exp t = Some e \<longrightarrow> now_ms div 1000 < e))) \<and>
         (\<forall>r. gate = Respond r \<longrightarrow>
              (status r = 401 \<or> status r = 403) \<and> protected gate handler st = (r, st)) \<and>
         (gate = Next \<longrightarrow> protected gate handler st = handler st)"
proof (intro conjI)
  show "(\<exists>r. gate = Respond r \<and> status r = 401) =
            (case h of None \<Rightarrow> True | Some s \<Rightarrow> \<not> startsWith s ''Bearer '')"
    unfolding assms authMiddleware_cases by (cases h) simp_all
  have "(\<exists>r. gate = Respond r \<and> status r = 403) =
          (\<exists>s. h = Some s \<and> startsWith s ''Bearer '' \<and>
               \<not> jwt_verify decode secret now_ms (bearer_token s))"
    unfolding assms authMiddleware_cases by (cases h) simp_all
  then show "(\<exists>r. gate = Respond r \<and> status r = 403) =
            (\<exists>s. h = Some s \<and> startsWith s ''Bearer '' \<and>
                 (bearer_token s = [] \<or> decode (bearer_token s) = None \<or>
                  (\<exists>t. decode (bearer_token s) = Some t \<and>
                       (signed_with t \<noteq> secret \<or>
                        (\<exists>n. nbf t = Some n \<and> now_ms div 1000 < n) \<or>
                        (\<exists>e. exp t = Some e \<and> e \<le> now_ms div 1000)))))"
    by (simp only: jwt_reject_iff)
  have "(gate = Next) =
          (\<exists>s. h = Some s \<and> startsWith s ''Bearer '' \<and>
               jwt_verify decode secret now_ms (bearer_token s))"
    unfolding assms authMiddleware_cases by (cases h) simp_all
  then show "(gate = Next) =
            (\<exists>s t. h = Some s \<and> startsWith s ''Bearer '' \<and> bearer_token s \<noteq> [] \<and>
                   decode (bearer_token s) = Some t \<and> signed_with t = secret \<and>
                   (\<forall>n. nbf t = Some n \<longrightarrow> n \<le> now_ms div 1000) \<and>
                   (\<forall>e. exp t = Some e \<longrightarrow> now_ms div 1000 < e))"
    by (simp only: jwt_verify_iff) blast
  show "\<forall>r. gate = Respond r \<longrightarrow>
              (status r = 401 \<or> status r = 403) \<and> protected gate handler st = (r, st)"
    unfolding assms authMiddleware_cases by (cases h) (simp_all add: protected_def)
  show "gate = Next \<longrightarrow> protected gate handler st = handler st"
    by (simp add: protected_def)
qed

theorem auth_gate_witness:
  "authMiddleware demo_decode ''key'' 2000000 None =
     (Respond \<lparr>status = 401, body = Err ''No token provided''\<rparr> :: post gate) \<and>
   protected (authMiddleware demo_decode ''key'' 2000000 None) demo_handler 0 =
     (\<lparr>status = 401, body = Err ''No token provided''\<rparr>, 0) \<and>
   startsWith ''Bearer forged'' ''Bearer '' \<and>
   \<not> jwt_verify demo_decode ''key'' 2000000 (bearer_token ''Bearer forged'') \<and>
   authMiddleware demo_decode ''key'' 2000000 (Some ''Bearer forged'') =
     (Respond \<lparr>status = 403, body = Err ''Invalid token''\<rparr> :: post gate) \<and>
   protected (authMiddleware demo_decode ''key'' 2000000 (Some ''Bearer forged'')) demo_handler 0 =
     (\<lparr>status = 403, body = Err ''Invalid token''\<rparr>, 0) \<and>
   \<not> jwt_verify demo_decode ''key'' 4600000 (bearer_token ''Bearer good'') \<and>
   authMiddleware demo_decode ''key'' 4600000 (Some ''Bearer good'') =
     (Respond \<lparr>status = 403, body = Err ''Invalid token''\<rparr> :: post gate) \<and>
   \<not> jwt_verify demo_decode ''key'' 2000000 (bearer_token ''Bearer early'') \<and>
   authMiddleware demo_decode ''key'' 2000000 (Some ''Bearer early'') =
     (Respond \<lparr>status = 403, body = Err ''Invalid token''\<rparr> :: post gate) \<and>
   authMiddleware demo_decode ''key'' 3000000 (Some ''Bearer early'') = (Next :: post gate) \<and>
   authMiddleware demo_decode ''key'' 2000000 (Some ''Bearer junk'') =
     (Respond \<lparr>status = 403, body = Err ''Invalid token''\<rparr> :: post gate) \<and>
   authMiddleware demo_decode ''key'' 2000000 (Some ''Bearer '') =
     (Respond \<lparr>status = 403, body = Err ''Invalid token''\<rparr> :: post gate) \<and>
   jwt_verify demo_decode ''key'' 2000000 (bearer_token ''Bearer good'') \<and>
   authMiddleware demo_decode ''key'' 2000000 (Some ''Bearer good'') = (Next :: post gate) \<and>
   authMiddleware demo_decode ''key'' 9000000 (Some ''Bearer lasting'') = (Next :: post gate) \<and>
   protected (authMiddleware demo_decode ''key'' 2000000 (Some ''Bearer good'')) demo_handler 0 =
     demo_handler 0"
proof -
  have s: "startsWith ''Bearer forged'' ''Bearer ''" "startsWith ''Bearer good'' ''Bearer ''"
    "startsWith ''Bearer early'' ''Bearer ''" "startsWith ''Bearer junk'' ''Bearer ''"
    "startsWith ''Bearer '' ''Bearer ''" "startsWith ''Bearer lasting'' ''Bearer ''"
    by (simp_all add: startsWith_def)
  have t: "bearer_token ''Bearer forged'' = ''forged''" "bearer_token ''Bearer good'' = ''good''"
    "bearer_token ''Bearer early'' = ''early''" "bearer_token ''Bearer junk'' = ''junk''"
    "bearer_token ''Bearer '' = []" "bearer_token ''Bearer lasting'' = ''lasting''"
    by (simp_all add: bearer_token_def)
  have v: "\<not> jwt_verify demo_decode ''key'' 2000000 ''forged''"
    "jwt_verify demo_decode ''key'' 2000000 ''good''"
    "\<not> jwt_verify demo_decode ''key'' 4600000 ''good''"
    "\<not> jwt_verify demo_decode ''key'' 2000000 ''early''"
    "jwt_verify demo_decode ''key'' 3000000 ''early''"
    "\<not> jwt_verify demo_decode ''key'' 2000000 ''junk''"
    "\<not> jwt_verify demo_decode ''key'' 2000000 []"
    "jwt_verify demo_decode ''key'' 9000000 ''lasting''"
    by (simp_all add: jwt_verify_def demo_decode_def)
  have g1: "authMiddleware demo_decode ''key'' 2000000 None =
     (Respond \<lparr>status = 401, body = Err ''No token provided''\<rparr> :: post gate)"
    by (simp add: authMiddleware_def)
  have g: "authMiddleware demo_decode ''key'' 2000000 (Some ''Bearer forged'') =
     (Respond \<lparr>status = 403, body = Err ''Invalid token''\<rparr> :: post gate)"
    "authMiddleware demo_decode ''key'' 4600000 (Some ''Bearer good'') =
     (Respond \<lparr>status = 403, body = Err ''Invalid token''\<rparr> :: post gate)"
    "authMiddleware demo_decode ''key'' 2000000 (Some ''Bearer early'') =
     (Respond \<lparr>status = 403, body = Err ''Invalid token''\<rparr> :: post gate)"
    "authMiddleware demo_decode ''key'' 3000000 (Some ''Bearer early'') = (Next :: post gate)"
    "authMiddleware demo_decode ''key'' 2000000 (Some ''Bearer junk'') =
     (Respond \<lparr>status = 403, body = Err ''Invalid token''\<rparr> :: post gate)"
    "authMiddleware demo_decode ''key'' 2000000 (Some ''Bearer '') =
     (Respond \<lparr>status = 403, body = Err ''Invalid token''\<rparr> :: post gate)"
    "authMiddleware demo_decode ''key'' 2000000 (Some ''Bearer good'') = (Next :: post gate)"
    "authMiddleware demo_decode ''key'' 9000000 (Some ''Bearer lasting'') = (Next :: post gate)"
    using s t v by (simp_all add: authMiddleware_cases)
  note a1 = auth_gate [where ?'p = post, OF refl, of demo_decode "''key''" 2000000 None
      demo_handler 0]
  note a2 = auth_gate [where ?'p = post, OF refl, of demo_decode "''key''" 2000000
      "Some ''Bearer forged''" demo_handler 0]
  note a3 = auth_gate [where ?'p = post, OF refl, of demo_decode "''key''" 2000000
      "Some ''Bearer good''" demo_handler 0]
  have p1: "protected (authMiddleware demo_decode ''key'' 2000000 None) demo_handler 0 =
     (\<lparr>status = 401, body = Err ''No token provided''\<rparr>, 0)"
    using a1 g1 by simp
  have p2: "protected (authMiddleware demo_decode ''key'' 2000000 (Some ''Bearer forged''))
      demo_handler 0 = (\<lparr>status = 403, body = Err ''Invalid token''\<rparr>, 0)"
    using a2 g(1) by simp
  have p3: "protected (authMiddleware demo_decode ''key'' 2000000 (Some ''Bearer good''))
      demo_handler 0 = demo_handler 0"
    using a3 g(7) by simp
  show ?thesis
    using s t v g1 g p1 p2 p3 by simp
qed




section \<open>Updating and deleting in file mode\<close>

lemma findIndex_Some:
  "findIndex f xs = Some i \<Longrightarrow> i < length xs \<and> f (xs ! i) \<and> (\<forall>j<i. \<not> f (xs ! j))"
proof (induction xs arbitrary: i)
  case Nil
  then show ?case by simp
next
  case (Cons x xs)
  show ?case
  proof (cases "f x")
    case True
    then show ?thesis using Cons.prems by simp
  next
    case False
    then obtain k where k: "findIndex f xs = Some k" "i = Suc k"
      using Cons.prems by auto
    then have "k < length xs \<and> f (xs ! k) \<and> (\<forall>j<k. \<not> f (xs ! j))"
      using Cons.IH by simp
    then show ?thesis using k False by (auto simp: less_Suc_eq_0_disj)
  qed
qed

lemma findIndex_None: "(findIndex f xs = None) = (\<forall>x \<in> set xs. \<not> f x)"
  by (induction xs) auto

lemma filter_update_other:
  "i < length xs \<Longrightarrow> \<not> P (xs ! i) \<Longrightarrow> \<not> P q \<Longrightarrow> filter P (xs[i := q]) = filter P xs"
proof (induction xs arbitrary: i)
  case Nil
  then show ?case by simp
next
  case (Cons x xs)
  then show ?case by (cases i) auto
qed

lemma filter_remove_other:
  assumes "i < length xs" and "\<not> P (xs ! i)"
  shows "filter P (take i xs @ drop (Suc i) xs) = filter P xs"
proof -
  have "xs = take i xs @ xs ! i # drop (Suc i) xs"
    using assms(1) by (rule id_take_nth_drop)
  then have "filter P xs = filter P (take i xs @ xs ! i # drop (Suc i) xs)"
    by simp
  also have "\<dots> = filter P (take i xs @ drop (Suc i) xs)"
    using assms(2) by simp
  finally show ?thesis by simp
qed

lemma update_file_ok:
  assumes "update_file w_fails clk id_param b fs = (r, fs')" and "status r = 200"
  shows "\<exists>posts i. fs = Json posts \<and> findIndex (\<lambda>p. Some (post_id p) = parseInt id_param) posts = Some i \<and>
           r = \<lparr>status = 200, body = Success\<rparr> \<and>
           fs' = Json (posts[i := merge_post (posts ! i) b (iso_now clk)])"
  using assms
  by (auto simp: update_file_def Let_def split: if_splits posts_file.splits option.splits)

lemma delete_file_ok:
  assumes "delete_file w_fails id_param fs = (r, fs')" and "status r = 200"
  shows "\<exists>posts i. fs = Json posts \<and> findIndex (\<lambda>p. Some (post_id p) = parseInt id_param) posts = Some i \<and>
           r = \<lparr>status = 200, body = SuccessPost (Some (posts ! i))\<rparr> \<and>
           fs' = Json (take i posts @ drop (Suc i) posts)"
  using assms
  by (auto simp: delete_file_def Let_def split: if_splits posts_file.splits option.splits)

lemma demo_update:
  "update_file False demo_clock ''2'' demo_fields (Json demo_posts) =
     (\<lparr>status = 200, body = Success\<rparr>,
      Json [demo_post1,
            demo_post2\<lparr>title := ''Hello,  World!'', content := ''text'', label := ''news'',
                        slug := ''hello-world'', updated := Some ''2026-11-03T10:00:00.000Z''\<rparr>,
            demo_post3])"
  by code_simp

lemma demo_delete:
  "delete_file False ''2'' (Json demo_posts) =
     (\<lparr>status = 200, body = SuccessPost (Some demo_post2)\<rparr>, Json [demo_post1, demo_post3])"
  by code_simp

text \<open>
  C10. In file mode a successful update (status 200) rewrites one post, the first one
  whose id is the requested id: its title, content, label, slug and \<open>updated\<close> are set,
  its id, \<open>createdAt\<close>, \<open>date\<close> and image are as before, and every other position of
  the array holds the post it held. A successful delete takes that one post out of the
  array. In both cases the posts with a different id are the same posts in the same
  order.
\<close>

theorem file_mode_frame:
  "(update_file w_fails clk id_param b fs = (r, fs') \<and> status r = 200 \<longrightarrow>
      (\<exists>posts i q. fs = Json posts \<and> i < length posts \<and> fs' = Json (posts[i := q]) \<and>
         parseInt id_param = Some (post_id (posts ! i)) \<and>
         q = (posts ! i)\<lparr>title := text_of (f_title b), content := text_of (f_content b),
                          label := text_of (f_label b),
                          slug := generateSlug (text_of (f_title b)),
                          updated := Some (iso_now clk)\<rparr> \<and>
         post_id q = post_id (posts ! i) \<and> createdAt q = createdAt (posts ! i) \<and>
         date q = date (posts ! i) \<and> image_url q = image_url (posts ! i) \<and>
         length (posts[i := q]) = length posts \<and>
         (\<forall>j<length posts. j \<noteq> i \<longrightarrow> posts[i := q] ! j = posts ! j) \<and>
         filter (\<lambda>p. Some (post_id p) \<noteq> parseInt id_param) (posts[i := q]) =
           filter (\<lambda>p. Some (post_id p) \<noteq> parseInt id_param) posts)) \<and>
   (delete_file w_fails id_param fs = (r, fs') \<and> status r = 200 \<longrightarrow>
      (\<exists>posts i. fs = Json posts \<and> i < length posts \<and>
         parseInt id_param = Some (post_id (posts ! i)) \<and>
         fs' = Json (take i posts @ drop (Suc i) posts) \<and>
         filter (\<lambda>p. Some (post_id p) \<noteq> parseInt id_param) (take i posts @ drop (Suc i) posts) =
           filter (\<lambda>p. Some (post_id p) \<noteq> parseInt id_param) posts))"
proof (intro conjI impI)
  assume "update_file w_fails clk id_param b fs = (r, fs') \<and> status r = 200"
  then obtain posts i where p: "fs = Json posts"
      "findIndex (\<lambda>p. Some (post_id p) = parseInt id_param) posts = Some i"
      "fs' = Json (posts[i := merge_post (posts ! i) b (iso_now clk)])"
    using update_file_ok by blast
  let ?q = "merge_post (posts ! i) b (iso_now clk)"
  have i: "i < length posts" "Some (post_id (posts ! i)) = parseInt id_param"
    using findIndex_Some [OF p(2)] by simp_all
  have q: "post_id ?q = post_id (posts ! i)" by (simp add: merge_post_def)
  have f: "filter (\<lambda>p. Some (post_id p) \<noteq> parseInt id_param) (posts[i := ?q]) =
           filter (\<lambda>p. Some (post_id p) \<noteq> parseInt id_param) posts"
    by (rule filter_update_other) (use i q in simp_all)
  show "\<exists>posts i q. fs = Json posts \<and> i < length posts \<and> fs' = Json (posts[i := q]) \<and>
         parseInt id_param = Some (post_id (posts ! i)) \<and>
         q = (posts ! i)\<lparr>title := text_of (f_title b), content := text_of (f_content b),
                          label := text_of (f_label b),
                          slug := generateSlug (text_of (f_title b)),
                          updated := Some (iso_now clk)\<rparr> \<and>
         post_id q = post_id (posts ! i) \<and> createdAt q = createdAt (posts ! i) \<and>
         date q = date (posts ! i) \<and> image_url q = image_url (posts ! i) \<and>
         length (posts[i := q]) = length posts \<and>
         (\<forall>j<length posts. j \<noteq> i \<longrightarrow> posts[i := q] ! j = posts ! j) \<and>
         filter (\<lambda>p. Some (post_id p) \<noteq> parseInt id_param) (posts[i := q]) =
           filter (\<lambda>p. Some (post_id p) \<noteq> parseInt id_param) posts"
    apply (rule exI [of _ posts], rule exI [of _ i], rule exI [of _ ?q])
    using p i f by (simp add: merge_post_def)
next
  assume "delete_file w_fails id_param fs = (r, fs') \<and> status r = 200"
  then obtain posts i where p: "fs = Json posts"
      "findIndex (\<lambda>p. Some (post_id p) = parseInt id_param) posts = Some i"
      "fs' = Json (take i posts @ drop (Suc i) posts)"
    using delete_file_ok by blast
  have i: "i < length posts" "Some (post_id (posts ! i)) = parseInt id_param"
    using findIndex_Some [OF p(2)] by simp_all
  have f: "filter (\<lambda>p. Some (post_id p) \<noteq> parseInt id_param) (take i posts @ drop (Suc i) posts) =
           filter (\<lambda>p. Some (post_id p) \<noteq> parseInt id_param) posts"
    by (rule filter_remove_other) (use i in simp_all)
  show "\<exists>posts i. fs = Json posts \<and> i < length posts \<and>
         parseInt id_param = Some (post_id (posts ! i)) \<and>
         fs' = Json (take i posts @ drop (Suc i) posts) \<and>
         filter (\<lambda>p. Some (post_id p) \<noteq> parseInt id_param) (take i posts @ drop (Suc i) posts) =
           filter (\<lambda>p. Some (post_id p) \<noteq> parseInt id_param) posts"
    apply (rule exI [of _ posts], rule exI [of _ i])
    using p i f by simp
qed


theorem file_mode_frame_witness:
  "update_file False demo_clock ''2'' demo_fields (Json demo_posts) =
     (\<lparr>status = 200, body = Success\<rparr>,
      Json [demo_post1,
            demo_post2\<lparr>title := ''Hello,  World!'', content := ''text'', label := ''news'',
                        slug := ''hello-world'', updated := Some ''2026-11-03T10:00:00.000Z''\<rparr>,
            demo_post3]) \<and>
   delete_file False ''2'' (Json demo_posts) =
     (\<lparr>status = 200, body = SuccessPost (Some demo_post2)\<rparr>, Json [demo_post1, demo_post3]) \<and>
   status (\<lparr>status = 200, body = Success\<rparr> :: post response) = 200"
  using demo_update demo_delete
    file_mode_frame [of False demo_clock "''2''" demo_fields "Json demo_posts"
      "\<lparr>status = 200, body = Success\<rparr>"
      "Json [demo_post1,
            demo_post2\<lparr>title := ''Hello,  World!'', content := ''text'', label := ''news'',
                        slug := ''hello-world'', updated := Some ''2026-11-03T10:00:00.000Z''\<rparr>,
            demo_post3]"]
    file_mode_frame [of False demo_clock "''2''" demo_fields "Json demo_posts"
      "\<lparr>status = 200, body = SuccessPost (Some demo_post2)\<rparr>" "Json [demo_post1, demo_post3]"]
  by simp

section \<open>Deleting posts\<close>

text \<open>
  The file-mode delete handler: a delete for an id that no stored post has answers 404
  and leaves the file; a delete for an id that a stored post has takes the first such
  post out and returns it (when the write succeeds).
\<close>

lemma delete_file_missing:
  "\<forall>p \<in> set posts. Some (post_id p) \<noteq> parseInt id_param \<Longrightarrow>
   delete_file w_fails id_param (Json posts) =
     (\<lparr>status = 404, body = Err ''Post not found''\<rparr>, Json posts)"
  using findIndex_None [of "\<lambda>p. Some (post_id p) = parseInt id_param" posts]
  by (simp add: delete_file_def)

lemma delete_file_found:
  assumes "p \<in> set posts" and "Some (post_id p) = parseInt id_param"
  shows "\<exists>i < length posts. Some (post_id (posts ! i)) = parseInt id_param \<and>
           delete_file False id_param (Json posts) =
             (\<lparr>status = 200, body = SuccessPost (Some (posts ! i))\<rparr>,
              Json (take i posts @ drop (Suc i) posts))"
proof -
  have "findIndex (\<lambda>p. Some (post_id p) = parseInt id_param) posts \<noteq> None"
    using assms findIndex_None [of "\<lambda>p. Some (post_id p) = parseInt id_param" posts] by auto
  then obtain i where i: "findIndex (\<lambda>p. Some (post_id p) = parseInt id_param) posts = Some i"
    by auto
  then show ?thesis
    using findIndex_Some [OF i] by (auto simp: delete_file_def)
qed

text \<open>
  C2. A delete for an id that no stored post has is to answer 404. In backend mode it
  does not: the delete handler has no answer 404 at all. Whatever the table service
  replies, the status is 500 (the service reports an error) or 200, and one delete
  request is sent; for an id that no row has, the service deletes nothing and replies
  with no rows and no error, and the handler answers 200 with \<open>success\<close> and no post.
\<close>

theorem delete_backend_not_found:
  "status (fst (delete_backend svc postId)) \<noteq> 404 \<and>
   snd (delete_backend svc postId) = [Delete postId] \<and>
   delete_select demo_service ''999'' = \<lparr>data = [], error = None\<rparr> \<and>
   delete_backend demo_service ''999'' =
     (\<lparr>status = 200, body = SuccessPost None\<rparr>, [Delete ''999''])"
proof (intro conjI)
  show "status (fst (delete_backend svc postId)) \<noteq> 404"
    by (cases "error (delete_select svc postId)") (simp_all add: delete_backend_def Let_def)
  show "snd (delete_backend svc postId) = [Delete postId]"
    by (simp add: delete_backend_def Let_def)
  show no_rows: "delete_select demo_service ''999'' = \<lparr>data = [], error = None\<rparr>"
    by (simp add: demo_service_def)
  show "delete_backend demo_service ''999'' =
     (\<lparr>status = 200, body = SuccessPost None\<rparr>, [Delete ''999''])"
    by (simp add: delete_backend_def Let_def no_rows at_index_def)
qed

section \<open>Creating posts: what is stored and when\<close>

lemma demo_present:
  "all_present (req_body demo_request)" "all_present demo_fields"
  "\<not> all_present (req_body demo_request_untitled)" "\<not> all_present demo_fields_unlabelled"
  by (simp_all add: all_present_def demo_request_def demo_fields_def demo_request_untitled_def
      demo_fields_unlabelled_def falsy_def)




text \<open>
  When the posts file cannot be read or parsed and the write fails as well, a complete
  create request does not succeed: the answer is 500.
\<close>

theorem create_unreadable_counterexample:
  "all_present (req_body demo_request) \<and>
   create_file True demo_clock demo_request ReadError =
     (\<lparr>status = 500, body = Err ''Cannot save post''\<rparr>, ReadError) \<and>
   create_file True demo_clock demo_request NotJson =
     (\<lparr>status = 500, body = Err ''Cannot save post''\<rparr>, NotJson)"
  by (simp add: all_present_def create_file_def demo_request_def demo_fields_def falsy_def)

text \<open>
  C9, amended. In file mode, for a create request with all required fields present, if
  the posts file cannot be read or does not parse, the handler goes on with an empty
  array: when the write succeeds the request succeeds and the file holds the new post
  only; when the write fails the answer is 500.
\<close>

theorem create_over_unreadable_file:
  "all_present (req_body req) \<and> (fs = ReadError \<or> fs = NotJson) \<longrightarrow>
     (\<not> w_fails \<longrightarrow>
        create_file w_fails clk req fs =
          (\<lparr>status = 200,
            body = Created (now clk) (generateSlug (text_of (f_title (req_body req))))\<rparr>,
           Json [newPost clk req])) \<and>
     (w_fails \<longrightarrow>
        create_file w_fails clk req fs = (\<lparr>status = 500, body = Err ''Cannot save post''\<rparr>, fs))"
proof (intro impI conjI)
  assume a: "all_present (req_body req) \<and> (fs = ReadError \<or> fs = NotJson)"
  then have empty: "(case fs of Json ps \<Rightarrow> ps | _ \<Rightarrow> []) = []"
    by auto
  {
    assume "\<not> w_fails"
    then show "create_file w_fails clk req fs =
          (\<lparr>status = 200,
            body = Created (now clk) (generateSlug (text_of (f_title (req_body req))))\<rparr>,
           Json [newPost clk req])"
      using a by (simp add: create_file_def all_present_def empty newPost_def)
  next
    assume "w_fails"
    then show "create_file w_fails clk req fs =
          (\<lparr>status = 500, body = Err ''Cannot save post''\<rparr>, fs)"
      using a by (simp add: create_file_def all_present_def)
  }
qed


theorem create_over_unreadable_file_witness:
  "all_present (req_body demo_request) \<and>
   create_file False demo_clock demo_request ReadError =
     (\<lparr>status = 200, body = Created 1700 ''hello-world''\<rparr>, Json [newPost demo_clock demo_request]) \<and>
   create_file False demo_clock demo_request NotJson =
     (\<lparr>status = 200, body = Created 1700 ''hello-world''\<rparr>, Json [newPost demo_clock demo_request]) \<and>
   create_file True demo_clock demo_request ReadError =
     (\<lparr>status = 500, body = Err ''Cannot save post''\<rparr>, ReadError)"
proof -
  have s: "generateSlug ''Hello,  World!'' = ''hello-world''" by code_simp
  have t: "text_of (f_title (req_body demo_request)) = ''Hello,  World!''" "now demo_clock = 1700"
    by (simp_all add: demo_request_def demo_fields_def text_of_def demo_clock_def)
  show ?thesis
    using create_over_unreadable_file [of demo_request ReadError False demo_clock]
      create_over_unreadable_file [of demo_request NotJson False demo_clock]
      create_over_unreadable_file [of demo_request ReadError True demo_clock]
      demo_present s t
    by simp
qed

section \<open>Updating posts\<close>

lemma truthy_only_Some: "(truthy_only v = Some t) = (v = Some t \<and> t \<noteq> [])"
  by (cases v) (auto simp: truthy_only_def falsy_def)

lemma updateData_fields:
  "(u_title (updateData clk b img) = Some t) = (f_title b = Some t \<and> t \<noteq> [])"
  "(u_content (updateData clk b img) = Some c) = (f_content b = Some c \<and> c \<noteq> [])"
  "(u_label (updateData clk b img) = Some l) = (f_label b = Some l \<and> l \<noteq> [])"
  "(u_image (updateData clk b img) = Some i) = (img = Some i \<and> i \<noteq> [])"
  "u_updated_at (updateData clk b img) = iso_now clk"
  by (simp_all add: updateData_def Let_def truthy_only_Some)

lemma updateData_slug:
  "falsy (f_title b) \<Longrightarrow> u_slug (updateData clk b img) = None"
  "f_title b = Some t \<Longrightarrow> generateSlug t \<noteq> [] \<Longrightarrow> t \<noteq> [] \<Longrightarrow>
     u_slug (updateData clk b img) = Some (generateSlug t)"
  by (simp_all add: updateData_def Let_def truthy_only_def falsy_def text_of_def)

lemma generateSlug_Nil: "generateSlug [] = []"
  by code_simp

lemma demo_updateData:
  "updateData demo_clock partial_fields (f_image partial_fields) =
     \<lparr>u_title = Some ''New title'', u_content = None, u_label = None, u_slug = Some ''new-title'',
      u_image = Some ''https://example.org/new.png'', u_updated_at = ''2026-11-03T10:00:00.000Z''\<rparr>"
  "updateData demo_clock untitled_fields (Some (public_url demo_service (upload_name demo_clock ''c.png''))) =
     \<lparr>u_title = None, u_content = Some ''rewritten'', u_label = None, u_slug = None,
      u_image = Some ''https://cdn.example.org/1700-c.png'', u_updated_at = ''2026-11-03T10:00:00.000Z''\<rparr>"
  by code_simp+

text \<open>
  In file mode an update must carry title, content and label: with the title alone the
  answer is 400 and nothing changes. And an image sent with a complete file-mode update
  is not stored: the post keeps the image it had.
\<close>

theorem update_partial_counterexample:
  "update_file False demo_clock ''2'' partial_fields (Json demo_posts) =
     (\<lparr>status = 400, body = Err ''Title, content, and label required''\<rparr>, Json demo_posts) \<and>
   update_file False demo_clock ''2'' demo_fields_with_image (Json demo_posts) =
     (\<lparr>status = 200, body = Success\<rparr>,
      Json [demo_post1,
            demo_post2\<lparr>title := ''Hello,  World!'', content := ''text'', label := ''news'',
                        slug := ''hello-world'', updated := Some ''2026-11-03T10:00:00.000Z''\<rparr>,
            demo_post3]) \<and>
   image_url (demo_post2\<lparr>title := ''Hello,  World!'', content := ''text'', label := ''news'',
                        slug := ''hello-world'', updated := Some ''2026-11-03T10:00:00.000Z''\<rparr>) =
     Some ''https://example.org/uploads/2-b.png''"
proof (intro conjI)
  show "update_file False demo_clock ''2'' partial_fields (Json demo_posts) =
     (\<lparr>status = 400, body = Err ''Title, content, and label required''\<rparr>, Json demo_posts)"
    by (simp add: update_file_def partial_fields_def falsy_def)
  show "update_file False demo_clock ''2'' demo_fields_with_image (Json demo_posts) =
     (\<lparr>status = 200, body = Success\<rparr>,
      Json [demo_post1,
            demo_post2\<lparr>title := ''Hello,  World!'', content := ''text'', label := ''news'',
                        slug := ''hello-world'', updated := Some ''2026-11-03T10:00:00.000Z''\<rparr>,
            demo_post3])"
    by code_simp
  show "image_url (demo_post2\<lparr>title := ''Hello,  World!'', content := ''text'', label := ''news'',
                        slug := ''hello-world'', updated := Some ''2026-11-03T10:00:00.000Z''\<rparr>) =
     Some ''https://example.org/uploads/2-b.png''"
    by (simp add: demo_post2_def)
qed

text \<open>
  C3, amended. In backend mode an update may carry any subset of title, content, label
  and image: the object sent to the table holds exactly those of them that are supplied
  and non-empty, so the others keep their stored values; it holds no slug when no title
  is supplied, and the slug recomputed from the title when a title is supplied whose
  slug is not empty; it always holds the update time; and when a file is uploaded and
  stored, the image sent is the public URL of that file. In file mode an update must
  carry title, content and label (400 otherwise); it replaces these three, recomputes
  the slug from the title and stamps \<open>updated\<close>, and leaves the image as it was.
\<close>

theorem update_outcome:
  "(snd (update_backend svc clk postId b None) = [Update postId (updateData clk b (f_image b))]) \<and>
   (storage_upload svc (upload_name clk orig) = None \<longrightarrow>
      snd (update_backend svc clk postId b (Some orig)) =
        [Upload (upload_name clk orig),
         Update postId (updateData clk b (Some (public_url svc (upload_name clk orig))))]) \<and>
   ((u_title (updateData clk b img) = Some t) = (f_title b = Some t \<and> t \<noteq> [])) \<and>
   ((u_content (updateData clk b img) = Some c) = (f_content b = Some c \<and> c \<noteq> [])) \<and>
   ((u_label (updateData clk b img) = Some l) = (f_label b = Some l \<and> l \<noteq> [])) \<and>
   ((u_image (updateData clk b img) = Some i) = (img = Some i \<and> i \<noteq> [])) \<and>
   (falsy (f_title b) \<longrightarrow> u_slug (updateData clk b img) = None) \<and>
   (f_title b = Some t \<and> generateSlug t \<noteq> [] \<longrightarrow>
      u_slug (updateData clk b img) = Some (generateSlug t)) \<and>
   u_updated_at (updateData clk b img) = iso_now clk \<and>
   (\<not> all_present b \<longrightarrow>
      update_file w_fails clk id_param b fs =
        (\<lparr>status = 400, body = Err ''Title, content, and label required''\<rparr>, fs)) \<and>
   (all_present b \<and> \<not> w_fails \<and>
    findIndex (\<lambda>p. Some (post_id p) = parseInt id_param) posts = Some index \<longrightarrow>
      update_file w_fails clk id_param b (Json posts) =
        (\<lparr>status = 200, body = Success\<rparr>,
         Json (posts[index := (posts ! index)
                 \<lparr>title := text_of (f_title b), content := text_of (f_content b),
                  label := text_of (f_label b), slug := generateSlug (text_of (f_title b)),
                  updated := Some (iso_now clk)\<rparr>])))"
proof (intro conjI impI)
  show "snd (update_backend svc clk postId b None) = [Update postId (updateData clk b (f_image b))]"
    by (simp add: update_backend_def send_update_def Let_def)
next
  assume "storage_upload svc (upload_name clk orig) = None"
  then show "snd (update_backend svc clk postId b (Some orig)) =
        [Upload (upload_name clk orig),
         Update postId (updateData clk b (Some (public_url svc (upload_name clk orig))))]"
    by (simp add: update_backend_def send_update_def Let_def upload_name_def)
next
  assume a: "f_title b = Some t \<and> generateSlug t \<noteq> []"
  then have "t \<noteq> []" using generateSlug_Nil by auto
  then show "u_slug (updateData clk b img) = Some (generateSlug t)"
    using a updateData_slug(2) by blast
next
  assume "\<not> all_present b"
  then show "update_file w_fails clk id_param b fs =
        (\<lparr>status = 400, body = Err ''Title, content, and label required''\<rparr>, fs)"
    by (auto simp: update_file_def all_present_def)
next
  assume "all_present b \<and> \<not> w_fails \<and>
    findIndex (\<lambda>p. Some (post_id p) = parseInt id_param) posts = Some index"
  then show "update_file w_fails clk id_param b (Json posts) =
        (\<lparr>status = 200, body = Success\<rparr>,
         Json (posts[index := (posts ! index)
                 \<lparr>title := text_of (f_title b), content := text_of (f_content b),
                  label := text_of (f_label b), slug := generateSlug (text_of (f_title b)),
                  updated := Some (iso_now clk)\<rparr>]))"
    by (simp add: update_file_def all_present_def merge_post_def)
qed (simp_all add: updateData_fields updateData_slug)


theorem update_outcome_witness:
  "snd (update_backend demo_service demo_clock ''7'' partial_fields None) =
     [Update ''7'' \<lparr>u_title = Some ''New title'', u_content = None, u_label = None,
                    u_slug = Some ''new-title'', u_image = Some ''https://example.org/new.png'',
                    u_updated_at = ''2026-11-03T10:00:00.000Z''\<rparr>] \<and>
   storage_upload demo_service (upload_name demo_clock ''c.png'') = None \<and>
   snd (update_backend demo_service demo_clock ''7'' untitled_fields (Some ''c.png'')) =
     [Upload ''1700-c.png'',
      Update ''7'' \<lparr>u_title = None, u_content = Some ''rewritten'', u_label = None, u_slug = None,
                    u_image = Some ''https://cdn.example.org/1700-c.png'',
                    u_updated_at = ''2026-11-03T10:00:00.000Z''\<rparr>] \<and>
   falsy (f_title untitled_fields) \<and>
   f_title partial_fields = Some ''New title'' \<and> generateSlug ''New title'' = ''new-title'' \<and>
   \<not> all_present partial_fields \<and>
   update_file False demo_clock ''2'' partial_fields (Json demo_posts) =
     (\<lparr>status = 400, body = Err ''Title, content, and label required''\<rparr>, Json demo_posts) \<and>
   all_present demo_fields \<and>
   findIndex (\<lambda>p. Some (post_id p) = parseInt ''2'') demo_posts = Some 1 \<and>
   update_file False demo_clock ''2'' demo_fields (Json demo_posts) =
     (\<lparr>status = 200, body = Success\<rparr>,
      Json (demo_posts[1 := (demo_posts ! 1)
              \<lparr>title := ''Hello,  World!'', content := ''text'', label := ''news'',
               slug := ''hello-world'', updated := Some ''2026-11-03T10:00:00.000Z''\<rparr>]))"
proof -
  have e: "storage_upload demo_service (upload_name demo_clock ''c.png'') = None"
    "upload_name demo_clock ''c.png'' = ''1700-c.png''"
    "falsy (f_title untitled_fields)" "f_title partial_fields = Some ''New title''"
    "generateSlug ''New title'' = ''new-title''" "generateSlug ''Hello,  World!'' = ''hello-world''"
    "findIndex (\<lambda>p. Some (post_id p) = parseInt ''2'') demo_posts = Some 1"
    by code_simp+
  have p: "\<not> all_present partial_fields" "all_present demo_fields"
    by (simp_all add: all_present_def partial_fields_def demo_fields_def falsy_def)
  have t: "text_of (f_title demo_fields) = ''Hello,  World!''"
    "text_of (f_content demo_fields) = ''text''" "text_of (f_label demo_fields) = ''news''"
    "iso_now demo_clock = ''2026-11-03T10:00:00.000Z''"
    by (simp_all add: demo_fields_def text_of_def demo_clock_def)
  note a = update_outcome [of demo_service demo_clock "''7''" partial_fields "''c.png''"
      "f_image partial_fields" "''New title''" "''x''" "''x''" "''x''" False "''2''"
      "Json demo_posts" demo_posts 1]
  note b = update_outcome [of demo_service demo_clock "''7''" untitled_fields "''c.png''"
      "f_image untitled_fields" "''New title''" "''x''" "''x''" "''x''" False "''2''"
      "Json demo_posts" demo_posts 1]
  note c = update_outcome [of demo_service demo_clock "''7''" demo_fields "''c.png''"
      "f_image demo_fields" "''New title''" "''x''" "''x''" "''x''" False "''2''"
      "Json demo_posts" demo_posts 1]
  show ?thesis
    using a b c e p t demo_updateData by simp
qed

section \<open>Looking up one post\<close>

lemma find_matches_id:
  "find (matches_id identifier) posts =
     (if \<not> js_isNaN identifier then find (\<lambda>p. Some (post_id p) = parseInt identifier) posts else None)"
proof (cases "js_isNaN identifier")
  case True
  then show ?thesis by (simp add: matches_id_def find_None_iff)
next
  case False
  have "matches_id identifier = (\<lambda>p. Some (post_id p) = parseInt identifier)"
    using False by (auto simp: matches_id_def fun_eq_iff)
  then show ?thesis using False by simp
qed

lemma lookup_file_order:
  "lookup_file posts identifier =
     (case find (matches_id identifier) posts of
        Some p \<Rightarrow> Some p
      | None \<Rightarrow>
          (case find (\<lambda>p. slug p = identifier) posts of
             Some p \<Rightarrow> Some p
           | None \<Rightarrow> find (\<lambda>p. generateSlug (title p) = identifier) posts))"
  by (simp add: lookup_file_def find_matches_id Let_def split: option.splits)

lemma lookup_file_by_id:
  "find (matches_id identifier) posts = Some p \<Longrightarrow> lookup_file posts identifier = Some p"
  by (simp add: lookup_file_order)

lemma find_SomeD: "find P xs = Some x \<Longrightarrow> P x \<and> x \<in> set xs"
  by (induction xs) (auto split: if_splits)

lemma lookup_file_None:
  "(lookup_file posts identifier = None) =
     (\<forall>p \<in> set posts. \<not> matches_id identifier p \<and> slug p \<noteq> identifier \<and>
                         generateSlug (title p) \<noteq> identifier)"
  by (auto simp: lookup_file_order find_None_iff split: option.splits dest: find_SomeD)

lemma find_first:
  "\<forall>q \<in> set pre. \<not> P q \<Longrightarrow> P p \<Longrightarrow> find P (pre @ p # rest) = Some p"
  by (induction pre) auto


lemma code_char_of: "n < 256 \<Longrightarrow> code (char_of n) = n"
  by (simp add: code_def)

lemma digit_char: "d < 10 \<Longrightarrow> is_digit (char_of (48 + d)) \<and> digit_val (char_of (48 + d)) = d"
  by (simp add: is_digit_def digit_val_def code_char_of)

lemma digits_of_all: "list_all is_digit (digits_of n) \<and> digits_of n \<noteq> []"
proof (induction n rule: digits_of.induct)
  case (1 n)
  show ?case
  proof (cases "n < 10")
    case True
    then show ?thesis using digit_char [of n] by (simp add: digits_of.simps [of n])
  next
    case False
    then show ?thesis
      using 1 digit_char [of "n mod 10"] by (simp add: digits_of.simps [of n])
  qed
qed

lemma digits_value_snoc: "digits_value r (ds @ [c]) = digits_value r ds * r + digit_val c"
  by (simp add: digits_value_def)

lemma digits_value_digits_of: "digits_value 10 (digits_of n) = n"
proof (induction n rule: digits_of.induct)
  case (1 n)
  show ?case
  proof (cases "n < 10")
    case True
    then show ?thesis
      using digit_char [of n] by (simp add: digits_of.simps [of n] digits_value_def)
  next
    case False
    then have "digits_value 10 (digits_of n) = digits_value 10 (digits_of (n div 10)) * 10 + n mod 10"
      using digit_char [of "n mod 10"]
      by (simp add: digits_of.simps [of n] digits_value_snoc)
    then show ?thesis using 1 False by simp
  qed
qed

lemma digit_plain: "is_digit c \<Longrightarrow> \<not> is_whitespace c \<and> \<not> is_sign c \<and> c \<noteq> CHR ''x'' \<and> c \<noteq> CHR ''X''"
  by (auto simp: is_digit_def is_whitespace_def is_sign_def code_def)

lemma takeWhile_all: "list_all P xs \<Longrightarrow> takeWhile P xs = xs \<and> dropWhile P xs = []"
  by (induction xs) auto

lemma not_hex_prefix:
  "list_all is_digit ds \<Longrightarrow> \<not> startsWith ds ''0x'' \<and> \<not> startsWith ds ''0X''"
proof (cases ds)
  case Nil
  then show ?thesis by (simp add: startsWith_def)
next
  case (Cons a as)
  assume d: "list_all is_digit ds"
  show ?thesis
  proof (cases as)
    case Nil
    then show ?thesis using Cons by (simp add: startsWith_def)
  next
    case (Cons b bs)
    then have "is_digit b" using d \<open>ds = a # as\<close> by simp
    then show ?thesis
      using digit_plain [of b] Cons \<open>ds = a # as\<close> by (simp add: startsWith_def)
  qed
qed

lemma parseInt_digits:
  assumes "list_all is_digit ds" and "ds \<noteq> []"
  shows "parseInt ds = Some (int (digits_value 10 ds))"
    and "parseInt (CHR ''-'' # ds) = Some (- int (digits_value 10 ds))"
proof -
  obtain d ds' where ds: "ds = d # ds'" using assms(2) by (cases ds) auto
  then have d: "is_digit d" using assms(1) by simp
  have w: "dropWhile is_whitespace ds = ds"
    using ds d digit_plain [of d] by simp
  have s: "strip_sign ds = ds"
    using ds d digit_plain [of d] by (simp add: strip_sign_def)
  have neg: "(case ds of [] \<Rightarrow> False | c # _ \<Rightarrow> c = CHR ''-'') = False"
    using ds d digit_plain [of d] by (auto simp: is_sign_def)
  have tw: "takeWhile is_digit ds = ds" using takeWhile_all [OF assms(1)] by simp
  have nh: "(startsWith ds ''0x'' \<or> startsWith ds ''0X'') = False"
    using not_hex_prefix [OF assms(1)] by simp
  show "parseInt ds = Some (int (digits_value 10 ds))"
    unfolding parseInt_def Let_def w s neg nh tw using assms(2) by simp
  have w': "dropWhile is_whitespace (CHR ''-'' # ds) = CHR ''-'' # ds"
    by (simp add: is_whitespace_def code_def)
  have s': "strip_sign (CHR ''-'' # ds) = ds"
    by (simp add: strip_sign_def is_sign_def)
  have neg': "(case CHR ''-'' # ds of [] \<Rightarrow> False | c # _ \<Rightarrow> c = CHR ''-'') = True"
    by simp
  show "parseInt (CHR ''-'' # ds) = Some (- int (digits_value 10 ds))"
    unfolding parseInt_def Let_def w' s' neg' nh tw using assms(2) by simp
qed

lemma parseInt_numberToString: "parseInt (numberToString i) = Some i"
proof (cases "i < 0")
  case True
  then show ?thesis
    using parseInt_digits(2) [of "digits_of (nat (- i))"] digits_of_all [of "nat (- i)"]
    by (simp add: numberToString_def digits_value_digits_of)
next
  case False
  then show ?thesis
    using parseInt_digits(1) [of "digits_of (nat i)"] digits_of_all [of "nat i"]
    by (simp add: numberToString_def digits_value_digits_of)
qed

lemma unsigned_decimal_digits:
  assumes "list_all is_digit ds" and "ds \<noteq> []"
  shows "unsigned_decimal ds"
proof -
  have tw: "takeWhile is_digit ds = ds" and dw: "dropWhile is_digit ds = []"
    using takeWhile_all [OF assms(1)] by simp_all
  show ?thesis
    unfolding unsigned_decimal_def Let_def tw dw using assms(2) by simp
qed

lemma dropWhile_rev_last: "xs \<noteq> [] \<Longrightarrow> \<not> P (last xs) \<Longrightarrow> dropWhile P (rev xs) = rev xs"
  by (cases xs rule: rev_cases) auto

lemma isNaN_digits:
  assumes "list_all is_digit ds" and "ds \<noteq> []"
  shows "\<not> js_isNaN ds" and "\<not> js_isNaN (CHR ''-'' # ds)"
proof -
  obtain d ds' where ds: "ds = d # ds'" using assms(2) by (cases ds) auto
  then have d: "\<not> is_whitespace d \<and> \<not> is_sign d" using assms(1) digit_plain [of d] by simp
  have "is_digit (last ds)" using assms by (simp add: list_all_iff)
  then have l: "\<not> is_whitespace (last ds)" using digit_plain by blast
  have w: "dropWhile is_whitespace ds = ds" using d ds by simp
  have r: "dropWhile is_whitespace (rev ds) = rev ds"
    by (rule dropWhile_rev_last [where P = is_whitespace, OF assms(2) l])
  have t: "rev (dropWhile is_whitespace (rev (dropWhile is_whitespace ds))) = ds"
    unfolding w r by simp
  have w': "dropWhile is_whitespace (CHR ''-'' # ds) = CHR ''-'' # ds"
    by (simp add: is_whitespace_def code_def)
  have l': "\<not> is_whitespace (last (CHR ''-'' # ds))" using l assms(2) by simp
  have r': "dropWhile is_whitespace (rev (CHR ''-'' # ds)) = rev (CHR ''-'' # ds)"
    by (rule dropWhile_rev_last [where P = is_whitespace, OF _ l']) simp
  have t': "rev (dropWhile is_whitespace (rev (dropWhile is_whitespace (CHR ''-'' # ds)))) =
              CHR ''-'' # ds"
    unfolding w' r' by simp
  have s: "strip_sign ds = ds" using ds d by (simp add: strip_sign_def)
  have s': "strip_sign (CHR ''-'' # ds) = ds" by (simp add: strip_sign_def is_sign_def)
  have u: "unsigned_decimal ds" by (rule unsigned_decimal_digits [OF assms])
  show "\<not> js_isNaN ds"
    unfolding js_isNaN_def Let_def t s using u by simp
  show "\<not> js_isNaN (CHR ''-'' # ds)"
    unfolding js_isNaN_def Let_def t' s' using u by simp
qed

lemma isNaN_numberToString: "\<not> js_isNaN (numberToString i)"
  using isNaN_digits [of "digits_of (nat (- i))"] isNaN_digits [of "digits_of (nat i)"]
    digits_of_all [of "nat (- i)"] digits_of_all [of "nat i"]
  by (simp add: numberToString_def)

lemma matches_id_numberToString: "matches_id (numberToString i) p = (post_id p = i)"
  by (auto simp: matches_id_def isNaN_numberToString parseInt_numberToString)


lemma get_post_file_Json:
  "get_post_file identifier (Json posts) =
     (case lookup_file posts identifier of
        None \<Rightarrow> \<lparr>status = 404, body = Err ''Post not found''\<rparr>
      | Some p \<Rightarrow> \<lparr>status = 200, body = PostB p\<rparr>)"
  by (simp add: get_post_file_def)

text \<open>
  The three identifiers of a post need not lead to the same post, and backend mode
  does not try the slug after the id. In file mode, of two stored posts with the same
  slug the second is found under its id, but its slug (and its derived slug) lead to the
  first. In backend mode a numeric identifier is looked up by id only: with a row whose
  slug is \<open>2024\<close> and no row whose id is 2024, the lookup of \<open>2024\<close> sends the id query
  alone and answers 404.
\<close>

theorem lookup_duplicates_counterexample:
  "get_post_file ''2'' (Json demo_posts) = \<lparr>status = 200, body = PostB demo_post2\<rparr> \<and>
   slug demo_post2 = ''hello'' \<and> generateSlug (title demo_post2) = ''hello'' \<and>
   get_post_file ''hello'' (Json demo_posts) = \<lparr>status = 200, body = PostB demo_post1\<rparr> \<and>
   demo_post1 \<noteq> demo_post2 \<and>
   \<not> js_isNaN ''2024'' \<and>
   select_single slug_only_service ''slug'' ''2024'' = \<lparr>data = Some 7, error = None\<rparr> \<and>
   get_post_backend slug_only_service ''2024'' =
     (\<lparr>status = 404, body = Err ''Post not found''\<rparr>, [SelectSingle ''id'' ''2024''])"
proof (intro conjI)
  show "get_post_file ''2'' (Json demo_posts) = \<lparr>status = 200, body = PostB demo_post2\<rparr>"
    by code_simp
  show "get_post_file ''hello'' (Json demo_posts) = \<lparr>status = 200, body = PostB demo_post1\<rparr>"
    by code_simp
  show "generateSlug (title demo_post2) = ''hello''" by code_simp
  show "\<not> js_isNaN ''2024''" by code_simp
  show "get_post_backend slug_only_service ''2024'' =
     (\<lparr>status = 404, body = Err ''Post not found''\<rparr>, [SelectSingle ''id'' ''2024''])"
    by code_simp
qed (simp_all add: demo_post1_def demo_post2_def slug_only_service_def)

text \<open>
  C4, amended. In file mode, over the stored list of posts, a lookup answers with the
  first post whose id is the identifier read as a number (tried only for a numeric
  identifier), else the first post whose slug is the identifier, else the first post
  whose title gives the identifier as its slug, and with 404 exactly when no post matches
  in any of the three ways. In backend mode a numeric identifier is looked up by id only
  and any other identifier by slug only, and the answer is 404 exactly when that one
  query reports an error or no row. In file mode a post is found under its id, its slug
  and its derived slug alike when no earlier post has its id or its slug, its slug is
  its derived slug, and its slug does not read as the id of a stored post.
\<close>

theorem lookup_outcome:
  "((status (get_post_file identifier (Json posts)) = 404) =
      (\<forall>p \<in> set posts. \<not> matches_id identifier p \<and> slug p \<noteq> identifier \<and>
                          generateSlug (title p) \<noteq> identifier)) \<and>
   (find (matches_id identifier) posts = Some p \<longrightarrow>
      get_post_file identifier (Json posts) = \<lparr>status = 200, body = PostB p\<rparr>) \<and>
   (find (matches_id identifier) posts = None \<and>
    find (\<lambda>q. slug q = identifier) posts = Some p \<longrightarrow>
      get_post_file identifier (Json posts) = \<lparr>status = 200, body = PostB p\<rparr>) \<and>
   (find (matches_id identifier) posts = None \<and>
    find (\<lambda>q. slug q = identifier) posts = None \<and>
    find (\<lambda>q. generateSlug (title q) = identifier) posts = Some p \<longrightarrow>
      get_post_file identifier (Json posts) = \<lparr>status = 200, body = PostB p\<rparr>) \<and>
   snd (get_post_backend svc identifier) =
     [SelectSingle (if js_isNaN identifier then ''slug'' else ''id'') identifier] \<and>
   ((status (fst (get_post_backend svc identifier)) = 404) =
      (error (select_single svc (if js_isNaN identifier then ''slug'' else ''id'') identifier) \<noteq> None \<or>
       data (select_single svc (if js_isNaN identifier then ''slug'' else ''id'') identifier) = None)) \<and>
   (posts = pre @ p # rest \<and>
    (\<forall>q \<in> set pre. post_id q \<noteq> post_id p \<and> slug q \<noteq> slug p) \<and>
    slug p = generateSlug (title p) \<and>
    (\<forall>q \<in> set posts. \<not> matches_id (slug p) q) \<longrightarrow>
      get_post_file (numberToString (post_id p)) (Json posts) = \<lparr>status = 200, body = PostB p\<rparr> \<and>
      get_post_file (slug p) (Json posts) = \<lparr>status = 200, body = PostB p\<rparr> \<and>
      get_post_file (generateSlug (title p)) (Json posts) = \<lparr>status = 200, body = PostB p\<rparr>)"
proof (intro conjI impI)
  show "(status (get_post_file identifier (Json posts)) = 404) =
      (\<forall>p \<in> set posts. \<not> matches_id identifier p \<and> slug p \<noteq> identifier \<and>
                          generateSlug (title p) \<noteq> identifier)"
    using lookup_file_None [of posts "identifier"]
    by (cases "lookup_file posts identifier") (simp_all add: get_post_file_Json)
next
  assume "find (matches_id identifier) posts = Some p"
  then show "get_post_file identifier (Json posts) = \<lparr>status = 200, body = PostB p\<rparr>"
    by (simp add: get_post_file_Json lookup_file_order)
next
  assume "find (matches_id identifier) posts = None \<and>
    find (\<lambda>q. slug q = identifier) posts = Some p"
  then show "get_post_file identifier (Json posts) = \<lparr>status = 200, body = PostB p\<rparr>"
    by (simp add: get_post_file_Json lookup_file_order)
next
  assume "find (matches_id identifier) posts = None \<and>
    find (\<lambda>q. slug q = identifier) posts = None \<and>
    find (\<lambda>q. generateSlug (title q) = identifier) posts = Some p"
  then show "get_post_file identifier (Json posts) = \<lparr>status = 200, body = PostB p\<rparr>"
    by (simp add: get_post_file_Json lookup_file_order)
next
  show "snd (get_post_backend svc identifier) =
     [SelectSingle (if js_isNaN identifier then ''slug'' else ''id'') identifier]"
    by (simp add: get_post_backend_def Let_def)
next
  show "(status (fst (get_post_backend svc identifier)) = 404) =
      (error (select_single svc (if js_isNaN identifier then ''slug'' else ''id'') identifier) \<noteq> None \<or>
       data (select_single svc (if js_isNaN identifier then ''slug'' else ''id'') identifier) = None)"
    by (auto simp: get_post_backend_def Let_def split: option.splits)
next
  assume a: "posts = pre @ p # rest \<and>
    (\<forall>q \<in> set pre. post_id q \<noteq> post_id p \<and> slug q \<noteq> slug p) \<and>
    slug p = generateSlug (title p) \<and>
    (\<forall>q \<in> set posts. \<not> matches_id (slug p) q)"
  from a have p1: "posts = pre @ p # rest"
    and p2: "\<forall>q \<in> set pre. post_id q \<noteq> post_id p"
    and p3: "\<forall>q \<in> set pre. slug q \<noteq> slug p"
    and p4: "slug p = generateSlug (title p)"
    and p5: "\<forall>q \<in> set posts. \<not> matches_id (slug p) q"
    by blast+
  have by_id: "find (matches_id (numberToString (post_id p))) posts = Some p"
    unfolding p1 by (rule find_first) (use p2 in \<open>simp_all add: matches_id_numberToString\<close>)
  have no_id: "find (matches_id (slug p)) posts = None"
    unfolding find_None_iff using p5 by blast
  have by_slug: "find (\<lambda>q. slug q = slug p) posts = Some p"
    unfolding p1 by (rule find_first) (use p3 in simp_all)
  show "get_post_file (numberToString (post_id p)) (Json posts) = \<lparr>status = 200, body = PostB p\<rparr>"
    using by_id by (simp add: get_post_file_Json lookup_file_order)
  show s: "get_post_file (slug p) (Json posts) = \<lparr>status = 200, body = PostB p\<rparr>"
    using no_id by_slug by (simp add: get_post_file_Json lookup_file_order)
  show "get_post_file (generateSlug (title p)) (Json posts) = \<lparr>status = 200, body = PostB p\<rparr>"
    using s unfolding p4 .
qed

theorem lookup_outcome_witness:
  "status (get_post_file ''nope'' (Json demo_posts)) = 404 \<and>
   find (matches_id ''2'') demo_posts = Some demo_post2 \<and>
   get_post_file ''2'' (Json demo_posts) = \<lparr>status = 200, body = PostB demo_post2\<rparr> \<and>
   find (matches_id ''hello'') demo_posts = None \<and>
   find (\<lambda>q. slug q = ''hello'') demo_posts = Some demo_post1 \<and>
   get_post_file ''hello'' (Json demo_posts) = \<lparr>status = 200, body = PostB demo_post1\<rparr> \<and>
   find (\<lambda>q. slug q = ''third'') (demo_posts @ [demo_post3\<lparr>title := ''Third!''\<rparr>]) = None \<and>
   get_post_file ''third'' (Json (demo_posts @ [demo_post3\<lparr>title := ''Third!''\<rparr>])) =
     \<lparr>status = 200, body = PostB (demo_post3\<lparr>title := ''Third!''\<rparr>)\<rparr> \<and>
   snd (get_post_backend slug_only_service ''2024'') = [SelectSingle ''id'' ''2024''] \<and>
   status (fst (get_post_backend slug_only_service ''2024'')) = 404 \<and>
   demo_posts = [demo_post1, demo_post2] @ demo_post3 # [] \<and>
   slug demo_post3 = generateSlug (title demo_post3) \<and>
   numberToString (post_id demo_post3) = ''3'' \<and>
   get_post_file ''3'' (Json demo_posts) = \<lparr>status = 200, body = PostB demo_post3\<rparr> \<and>
   get_post_file ''third-post'' (Json demo_posts) = \<lparr>status = 200, body = PostB demo_post3\<rparr>"
proof -
  let ?more = "demo_posts @ [demo_post3\<lparr>title := ''Third!''\<rparr>]"
  have e: "find (matches_id ''2'') demo_posts = Some demo_post2"
    "find (matches_id ''hello'') demo_posts = None"
    "find (\<lambda>q. slug q = ''hello'') demo_posts = Some demo_post1"
    "find (matches_id ''third'') ?more = None"
    "find (\<lambda>q. slug q = ''third'') ?more = None"
    "find (\<lambda>q. generateSlug (title q) = ''third'') ?more = Some (demo_post3\<lparr>title := ''Third!''\<rparr>)"
    "slug demo_post3 = generateSlug (title demo_post3)"
    "numberToString (post_id demo_post3) = ''3''"
    "slug demo_post3 = ''third-post''"
    "list_all (\<lambda>q. \<not> matches_id ''nope'' q \<and> slug q \<noteq> ''nope'' \<and>
                   generateSlug (title q) \<noteq> ''nope'') demo_posts"
    "list_all (\<lambda>q. post_id q \<noteq> post_id demo_post3 \<and> slug q \<noteq> slug demo_post3)
       [demo_post1, demo_post2]"
    "list_all (\<lambda>q. \<not> matches_id (slug demo_post3) q) demo_posts"
    "js_isNaN ''2024'' = False"
    by code_simp+
  have d: "demo_posts = [demo_post1, demo_post2] @ demo_post3 # []"
    by (simp add: demo_posts_def)
  note a = lookup_outcome [of "''nope''" demo_posts demo_post1 slug_only_service "[]" "[]"]
  note b = lookup_outcome [of "''2''" demo_posts demo_post2 slug_only_service "[]" "[]"]
  note c = lookup_outcome [of "''hello''" demo_posts demo_post1 slug_only_service "[]" "[]"]
  note f = lookup_outcome [of "''third''" ?more "demo_post3\<lparr>title := ''Third!''\<rparr>"
      slug_only_service "[]" "[]"]
  note g = lookup_outcome [of "''2024''" demo_posts demo_post3 slug_only_service
      "[demo_post1, demo_post2]" "[]"]
  have g1: "status (get_post_file ''nope'' (Json demo_posts)) = 404"
    using a e(10) by (simp add: list_all_iff)
  have g2: "snd (get_post_backend slug_only_service ''2024'') = [SelectSingle ''id'' ''2024''] \<and>
            status (fst (get_post_backend slug_only_service ''2024'')) = 404"
    using g e(13) by (simp add: slug_only_service_def demo_service_def)
  have g3: "get_post_file ''3'' (Json demo_posts) = \<lparr>status = 200, body = PostB demo_post3\<rparr> \<and>
            get_post_file ''third-post'' (Json demo_posts) = \<lparr>status = 200, body = PostB demo_post3\<rparr>"
    using g d e(7,8,9,11,12) by (simp add: list_all_iff)
  show ?thesis
    using b c f e d g1 g2 g3 by simp
qed

end
